theory Spec2Isabelle
  imports Main "HOL-Library.Multiset"
begin

section \<open>The GCC tree, as the plugin reads it\<close>

text \<open>
  The plugin (\<^verbatim>\<open>narrowing_cast_plugin.cc\<close>) never builds or changes a tree: it reads
  GCC's \<^verbatim>\<open>tree\<close> through accessor macros. The model therefore consists of a datatype of
  trees, one function per macro, and one function per function of the plugin. The
  callback \<^verbatim>\<open>pre_genericize_callback\<close> only hands the body of a function and a
  \<^verbatim>\<open>walk_data\<close> holding the declared result type to \<^verbatim>\<open>traverse_and_check_ast\<close>.

  \<^verbatim>\<open>enum tree_code\<close>: every code the plugin names, the codes of the few nodes the
  examples need besides (\<open>ERROR_MARK\<close>, \<open>VOID_TYPE\<close>, \<open>POINTER_TYPE\<close>, \<open>FUNCTION_TYPE\<close>,
  \<open>INTEGER_CST\<close>, \<open>REAL_CST\<close>, \<open>RESULT_DECL\<close>, \<open>NEGATE_EXPR\<close>, \<open>COMPONENT_REF\<close>), and \<open>OTHER_CODE c k\<close> for
  the \<open>k\<close>-th code of class \<open>c\<close> that the plugin does not name: the vocabulary of node
  kinds stays open.
\<close>

datatype tree_code_class =
    tcc_exceptional | tcc_constant | tcc_type | tcc_declaration | tcc_reference
  | tcc_comparison | tcc_unary | tcc_binary | tcc_statement | tcc_vl_exp | tcc_expression

datatype (plugins only: size) tree_code =
    ERROR_MARK | IDENTIFIER_NODE
  | VOID_TYPE | INTEGER_TYPE | REAL_TYPE | POINTER_TYPE | FUNCTION_TYPE
  | VAR_DECL | PARM_DECL | FIELD_DECL | FUNCTION_DECL | TYPE_DECL | RESULT_DECL
  | INTEGER_CST | REAL_CST
  | MODIFY_EXPR | INIT_EXPR | CALL_EXPR | RETURN_EXPR
  | NOP_EXPR | CONVERT_EXPR | VIEW_CONVERT_EXPR | FLOAT_EXPR | FIX_TRUNC_EXPR | ADDR_EXPR
  | PLUS_EXPR | MINUS_EXPR | MULT_EXPR | TRUNC_DIV_EXPR
  | CEIL_DIV_EXPR | FLOOR_DIV_EXPR | ROUND_DIV_EXPR
  | TRUNC_MOD_EXPR | CEIL_MOD_EXPR | FLOOR_MOD_EXPR | ROUND_MOD_EXPR
  | RDIV_EXPR | EXACT_DIV_EXPR | FDESC_EXPR
  | BIT_IOR_EXPR | BIT_XOR_EXPR | BIT_AND_EXPR | BIT_NOT_EXPR
  | TRUTH_ANDIF_EXPR | TRUTH_ORIF_EXPR | TRUTH_AND_EXPR
  | TRUTH_OR_EXPR | TRUTH_XOR_EXPR | TRUTH_NOT_EXPR | LT_EXPR
  | LE_EXPR | GT_EXPR | GE_EXPR | EQ_EXPR | NE_EXPR
  | UNORDERED_EXPR | ORDERED_EXPR | UNLT_EXPR | UNLE_EXPR
  | UNGT_EXPR | UNGE_EXPR | UNEQ_EXPR | LTGT_EXPR
  | INDIRECT_REF | COMPOUND_EXPR
  | TARGET_EXPR | COND_EXPR | VEC_COND_EXPR | VEC_PERM_EXPR
  | WITH_CLEANUP_EXPR | CLEANUP_POINT_EXPR
  | CONSTRUCTOR | COMPOUND_LITERAL_EXPR | SAVE_EXPR
  | REALIGN_LOAD_EXPR
  | NON_LVALUE_EXPR | ABS_EXPR
  | LSHIFT_EXPR | RSHIFT_EXPR | LROTATE_EXPR | RROTATE_EXPR
  | BIND_EXPR | STATEMENT_LIST | EXPR_STMT | IF_STMT | FOR_STMT | WHILE_STMT
  | DO_STMT | SWITCH_STMT | CASE_LABEL_EXPR | DECL_EXPR
  | NEGATE_EXPR | COMPONENT_REF
  | OTHER_CODE tree_code_class nat

type_synonym location_t = nat

definition UNKNOWN_LOCATION :: location_t where
  "UNKNOWN_LOCATION = 0"

text \<open>
  A \<^verbatim>\<open>tree\<close> is a pointer to a node; the node's structure depends on its code. One
  constructor per structure the plugin reads:
  \<^item> \<open>NULL_TREE\<close>, the null pointer;
  \<^item> \<open>error_mark_node\<close>, GCC's one node of code \<open>ERROR_MARK\<close>;
  \<^item> \<open>Tree_identifier s\<close>: an \<open>IDENTIFIER_NODE\<close> with \<open>IDENTIFIER_POINTER\<close> \<open>s\<close>;
  \<^item> \<open>Tree_type code precision name variant_of arg_types\<close>: a type with its
    \<open>TYPE_PRECISION\<close>, its \<open>TYPE_NAME\<close>, its main variant (GCC stores a pointer that, in a
    main variant, points to the node itself; here \<open>NULL_TREE\<close> stands for that
    self-reference), and, for a function type, the \<open>TREE_VALUE\<close>s of the \<open>TREE_LIST\<close>
    chain \<open>TYPE_ARG_TYPES\<close>, in order (the chain's end is the list's end);
  \<^item> \<open>Tree_decl code location name type initial\<close>: a declaration with
    \<open>DECL_SOURCE_LOCATION\<close>, \<open>DECL_NAME\<close>, \<open>TREE_TYPE\<close> and \<open>DECL_INITIAL\<close>;
  \<^item> \<open>Tree_exp code location type operands\<close>: an expression or statement with
    \<open>EXPR_LOCATION\<close>, \<open>TREE_TYPE\<close> and its operands \<open>TREE_OPERAND (node, 0..)\<close>; a
    \<open>CALL_EXPR\<close> has GCC's layout: operand 0 the operand count, operand 1 the callee,
    operand 2 the static chain, the arguments from operand 3 on;
  \<^item> \<open>Tree_cst code type value\<close>: a constant with its \<open>TREE_TYPE\<close> and its value;
  \<^item> \<open>Tree_statement_list stmts\<close>: a \<open>STATEMENT_LIST\<close> with the statements its iterator
    yields.
  A datatype value is a finite tree without sharing: the finite, acyclic body in which no
  node has two parents.
\<close>

datatype (plugins only: size) tree =
    NULL_TREE
  | error_mark_node
  | Tree_identifier string
  | Tree_type tree_code nat tree tree "tree list"
  | Tree_decl tree_code location_t tree tree tree
  | Tree_exp tree_code location_t tree "tree list"
  | Tree_cst tree_code tree int
  | Tree_statement_list "tree list"

text \<open>
  \<^verbatim>\<open>void_type_node\<close>, which ends the parameter list of a function that is not variadic.
\<close>

definition void_type_node :: tree where
  "void_type_node = Tree_type VOID_TYPE 0 (Tree_identifier ''void'') NULL_TREE []"

subsection \<open>Accessor macros\<close>

text \<open>
  Each macro reads a field of the structure its argument's code selects. The plugin
  applies \<open>TREE_CODE\<close> and \<open>TREE_TYPE\<close> to non-null pointers only (every use is behind a
  null test, which the model keeps), so both are left unspecified on \<open>NULL_TREE\<close>.
  \<open>TYPE_PRECISION\<close>, \<open>TYPE_MAIN_VARIANT\<close> and \<open>TYPE_NAME\<close> are specified on types only.
  A field that the structure of a node does not have reads as absent: \<open>NULL_TREE\<close>, no
  operands, no parameter types.
\<close>

fun TREE_CODE :: "tree \<Rightarrow> tree_code" where
  "TREE_CODE error_mark_node = ERROR_MARK"
| "TREE_CODE (Tree_identifier s) = IDENTIFIER_NODE"
| "TREE_CODE (Tree_type c p n mv args) = c"
| "TREE_CODE (Tree_decl c l n t i) = c"
| "TREE_CODE (Tree_exp c l t ops) = c"
| "TREE_CODE (Tree_cst c t v) = c"
| "TREE_CODE (Tree_statement_list ss) = STATEMENT_LIST"

fun TREE_TYPE :: "tree \<Rightarrow> tree" where
  "TREE_TYPE error_mark_node = error_mark_node"
| "TREE_TYPE (Tree_identifier s) = NULL_TREE"
| "TREE_TYPE (Tree_type c p n mv args) = NULL_TREE"
| "TREE_TYPE (Tree_decl c l n t i) = t"
| "TREE_TYPE (Tree_exp c l t ops) = t"
| "TREE_TYPE (Tree_cst c t v) = t"
| "TREE_TYPE (Tree_statement_list ss) = void_type_node"

fun operands :: "tree \<Rightarrow> tree list" where
  "operands (Tree_exp c l t ops) = ops"
| "operands _ = []"

text \<open>
  \<open>TREE_OPERAND_LENGTH\<close> is the number of operands the node has (for a \<open>CALL_EXPR\<close> the
  count stored in operand 0, which is the length of the operand vector). GCC fixes the
  number of operands of every other code; an operand index beyond it reads as absent.
\<close>

definition TREE_OPERAND_LENGTH :: "tree \<Rightarrow> nat" where
  "TREE_OPERAND_LENGTH node = length (operands node)"

definition TREE_OPERAND :: "tree \<Rightarrow> nat \<Rightarrow> tree" where
  "TREE_OPERAND node i = (if i < length (operands node) then operands node ! i else NULL_TREE)"

fun DECL_INITIAL :: "tree \<Rightarrow> tree" where
  "DECL_INITIAL (Tree_decl c l n t i) = i"
| "DECL_INITIAL _ = NULL_TREE"

fun DECL_NAME :: "tree \<Rightarrow> tree" where
  "DECL_NAME (Tree_decl c l n t i) = n"
| "DECL_NAME _ = NULL_TREE"

fun DECL_SOURCE_LOCATION :: "tree \<Rightarrow> location_t" where
  "DECL_SOURCE_LOCATION (Tree_decl c l n t i) = l"
| "DECL_SOURCE_LOCATION _ = UNKNOWN_LOCATION"

text \<open>\<open>EXPR_LOCATION\<close> is \<open>UNKNOWN_LOCATION\<close> on a node that is not an expression.\<close>

fun EXPR_LOCATION :: "tree \<Rightarrow> location_t" where
  "EXPR_LOCATION (Tree_exp c l t ops) = l"
| "EXPR_LOCATION _ = UNKNOWN_LOCATION"

fun IDENTIFIER_POINTER :: "tree \<Rightarrow> string" where
  "IDENTIFIER_POINTER (Tree_identifier s) = s"

fun TYPE_NAME :: "tree \<Rightarrow> tree" where
  "TYPE_NAME (Tree_type c p n mv args) = n"

fun TYPE_PRECISION :: "tree \<Rightarrow> nat" where
  "TYPE_PRECISION (Tree_type c p n mv args) = p"

fun TYPE_MAIN_VARIANT :: "tree \<Rightarrow> tree" where
  "TYPE_MAIN_VARIANT (Tree_type c p n mv args) =
     (if mv = NULL_TREE then Tree_type c p n mv args else mv)"

fun TYPE_ARG_TYPES :: "tree \<Rightarrow> tree list" where
  "TYPE_ARG_TYPES (Tree_type c p n mv args) = args"
| "TYPE_ARG_TYPES _ = []"

fun tsi_stmts :: "tree \<Rightarrow> tree list" where
  "tsi_stmts (Tree_statement_list ss) = ss"
| "tsi_stmts _ = []"

definition CALL_EXPR_FN :: "tree \<Rightarrow> tree" where
  "CALL_EXPR_FN node = TREE_OPERAND node 1"

text \<open>
  The argument operands of a call: the operands from index 3 on, which the iterator of
  \<^verbatim>\<open>FOR_EACH_CALL_EXPR_ARG\<close> returns one by one.
\<close>

definition call_expr_args :: "tree \<Rightarrow> tree list" where
  "call_expr_args node = drop 3 (operands node)"

text \<open>
  \<open>TREE_CODE_CLASS\<close>, GCC's table (\<^verbatim>\<open>tree.def\<close>, \<^verbatim>\<open>c-common.def\<close>, \<^verbatim>\<open>cp-tree.def\<close>), for
  the codes named here; the class of any other code is carried by \<open>OTHER_CODE\<close>. The
  plugin consults the table in the \<^verbatim>\<open>default\<close> branch of its second switch only, that is,
  for codes that no case of that switch names: of the named codes these are
  \<open>RETURN_EXPR\<close> (a statement), \<open>NEGATE_EXPR\<close> (unary), \<open>COMPONENT_REF\<close> (a reference), the
  constants, the types, the remaining declarations, \<open>IDENTIFIER_NODE\<close> and \<open>ERROR_MARK\<close>.
\<close>

definition TREE_CODE_CLASS :: "tree_code \<Rightarrow> tree_code_class" where
  "TREE_CODE_CLASS code =
    (case code of OTHER_CODE c k \<Rightarrow> c
     | _ \<Rightarrow>
     if code \<in> set [ERROR_MARK, IDENTIFIER_NODE, CONSTRUCTOR, STATEMENT_LIST]
       then tcc_exceptional
     else if code \<in> set [VOID_TYPE, INTEGER_TYPE, REAL_TYPE, POINTER_TYPE, FUNCTION_TYPE]
       then tcc_type
     else if code \<in> set [VAR_DECL, PARM_DECL, FIELD_DECL, FUNCTION_DECL, TYPE_DECL, RESULT_DECL]
       then tcc_declaration
     else if code \<in> set [INTEGER_CST, REAL_CST]
       then tcc_constant
     else if code \<in> set [INDIRECT_REF, VIEW_CONVERT_EXPR, COMPONENT_REF]
       then tcc_reference
     else if code \<in> set [LT_EXPR, LE_EXPR, GT_EXPR, GE_EXPR, EQ_EXPR, NE_EXPR,
                          UNORDERED_EXPR, ORDERED_EXPR, UNLT_EXPR, UNLE_EXPR, UNGT_EXPR,
                          UNGE_EXPR, UNEQ_EXPR, LTGT_EXPR]
       then tcc_comparison
     else if code \<in> set [NOP_EXPR, CONVERT_EXPR, FLOAT_EXPR, FIX_TRUNC_EXPR, BIT_NOT_EXPR,
                          NON_LVALUE_EXPR, ABS_EXPR, NEGATE_EXPR]
       then tcc_unary
     else if code \<in> set [PLUS_EXPR, MINUS_EXPR, MULT_EXPR, TRUNC_DIV_EXPR, CEIL_DIV_EXPR,
                          FLOOR_DIV_EXPR, ROUND_DIV_EXPR, TRUNC_MOD_EXPR, CEIL_MOD_EXPR,
                          FLOOR_MOD_EXPR, ROUND_MOD_EXPR, RDIV_EXPR, EXACT_DIV_EXPR,
                          BIT_IOR_EXPR, BIT_XOR_EXPR, BIT_AND_EXPR, LSHIFT_EXPR, RSHIFT_EXPR,
                          LROTATE_EXPR, RROTATE_EXPR]
       then tcc_binary
     else if code \<in> set [RETURN_EXPR, IF_STMT, FOR_STMT, WHILE_STMT, DO_STMT, SWITCH_STMT,
                          CASE_LABEL_EXPR, DECL_EXPR]
       then tcc_statement
     else if code = CALL_EXPR
       then tcc_vl_exp
     else tcc_expression)"

section \<open>The plugin\<close>

record walk_data =
  function_return_type :: tree

text \<open>
  What \<^verbatim>\<open>warning_at\<close> receives: the location and the three strings of the message
  \<^verbatim>\<open>"Y2038 potential issue: lossy conversion from %s to %s in %s"\<close>.
\<close>

record diagnostic =
  diag_loc :: location_t
  diag_from :: string
  diag_to :: string
  diag_context :: string

definition get_type_name :: "tree \<Rightarrow> string" where
  "get_type_name type =
    (if type = NULL_TREE then ''<null type>''
     else if TYPE_NAME type = NULL_TREE then ''<anonymous type>''
     else let name = TYPE_NAME type in
       if TREE_CODE name = IDENTIFIER_NODE then IDENTIFIER_POINTER name
       else if TREE_CODE name = TYPE_DECL \<and> DECL_NAME name \<noteq> NULL_TREE
         then IDENTIFIER_POINTER (DECL_NAME name)
       else ''<unhandled type name>'')"

definition is_numeric_type :: "tree \<Rightarrow> bool" where
  "is_numeric_type type =
    (if type = NULL_TREE then False
     else let type = TYPE_MAIN_VARIANT type in
       TREE_CODE type = INTEGER_TYPE \<or> TREE_CODE type = REAL_TYPE)"


text \<open>
  The loop of \<^verbatim>\<open>get_original_type\<close> that peels conversion wrappers: while the current
  expression is not null and is a conversion node, step to its operand 0.
\<close>

definition is_conversion_code :: "tree_code \<Rightarrow> bool" where
  "is_conversion_code code \<longleftrightarrow>
     code = NOP_EXPR \<or> code = CONVERT_EXPR \<or> code = VIEW_CONVERT_EXPR
     \<or> code = FLOAT_EXPR \<or> code = FIX_TRUNC_EXPR"

text \<open>The measure of the recursions over the tree: a null pointer is below every node.\<close>

definition tree_measure :: "tree \<Rightarrow> nat" where
  "tree_measure t = (if t = NULL_TREE then 0 else Suc (size t))"

lemma tree_measure_member:
  "x \<in> set xs \<Longrightarrow> tree_measure x \<le> Suc (size_list size xs)"
proof -
  assume "x \<in> set xs"
  then have "size x \<le> size_list size xs" by (rule size_list_estimation') simp
  then show ?thesis by (simp add: tree_measure_def)
qed

lemma tree_measure_TREE_OPERAND:
  "node \<noteq> NULL_TREE \<Longrightarrow> tree_measure (TREE_OPERAND node i) < tree_measure node"
proof (cases node)
  case (Tree_exp c l t ops)
  show ?thesis
  proof (cases "i < length ops")
    case True
    then have "ops ! i \<in> set ops" by simp
    then have "tree_measure (ops ! i) \<le> Suc (size_list size ops)" by (rule tree_measure_member)
    with True Tree_exp show ?thesis by (simp add: TREE_OPERAND_def tree_measure_def)
  next
    case False
    with Tree_exp show ?thesis by (simp add: TREE_OPERAND_def tree_measure_def)
  qed
qed (simp_all add: TREE_OPERAND_def tree_measure_def)

function peel_conversions :: "tree \<Rightarrow> tree" where
  "peel_conversions current_expr =
     (if current_expr \<noteq> NULL_TREE \<and> is_conversion_code (TREE_CODE current_expr)
      then peel_conversions (TREE_OPERAND current_expr 0)
      else current_expr)"
  by pat_completeness auto
termination
  by (relation "measure tree_measure") (auto intro!: tree_measure_TREE_OPERAND)

declare peel_conversions.simps [simp del]

definition get_original_type :: "tree \<Rightarrow> tree" where
  "get_original_type expr =
    (if expr = NULL_TREE then NULL_TREE
     else let current_expr = (if TREE_CODE expr = INIT_EXPR then TREE_OPERAND expr 1 else expr);
              current_expr = peel_conversions current_expr
          in if current_expr \<noteq> NULL_TREE then TREE_TYPE current_expr else TREE_TYPE expr)"

text \<open>
  \<^verbatim>\<open>check_narrowing_conversion\<close> returns the diagnostics it hands to \<^verbatim>\<open>warning_at\<close>:
  none or one.
\<close>

definition check_narrowing_conversion :: "location_t \<Rightarrow> tree \<Rightarrow> tree \<Rightarrow> string \<Rightarrow> diagnostic list" where
  "check_narrowing_conversion loc to_type from_expr context =
    (let from_type = get_original_type from_expr in
     if to_type = NULL_TREE \<or> from_type = NULL_TREE
        \<or> to_type = error_mark_node \<or> from_type = error_mark_node then []
     else if is_numeric_type to_type \<and> is_numeric_type from_type then
       (let from_type_main = TYPE_MAIN_VARIANT from_type;
            to_type_main = TYPE_MAIN_VARIANT to_type;
            from_code = TREE_CODE from_type_main;
            to_code = TREE_CODE to_type_main;
            from_precision = TYPE_PRECISION from_type;
            to_precision = TYPE_PRECISION to_type;
            standard_narrowing = (from_precision = 64 \<and> to_precision = 32 \<and> from_code = to_code);
            int64_to_float = (from_code = INTEGER_TYPE \<and> from_precision = 64 \<and>
                              to_code = REAL_TYPE \<and> to_precision = 32);
            double_to_int32 = (from_code = REAL_TYPE \<and> from_precision = 64 \<and>
                               to_code = INTEGER_TYPE \<and> to_precision = 32)
        in if standard_narrowing \<or> int64_to_float \<or> double_to_int32
           then [\<lparr>diag_loc = loc, diag_from = get_type_name from_type,
                  diag_to = get_type_name to_type, diag_context = context\<rparr>]
           else [])
     else [])"

function get_fndecl_from_callee_expr :: "tree \<Rightarrow> tree" where
  "get_fndecl_from_callee_expr callee =
    (if callee = NULL_TREE then NULL_TREE
     else if TREE_CODE callee = FUNCTION_DECL then callee
     else if TREE_CODE callee = ADDR_EXPR \<or> TREE_CODE callee = NOP_EXPR
             \<or> TREE_CODE callee = CONVERT_EXPR
       then get_fndecl_from_callee_expr (TREE_OPERAND callee 0)
     else NULL_TREE)"
  by pat_completeness auto
termination
  by (relation "measure tree_measure") (auto intro!: tree_measure_TREE_OPERAND)

declare get_fndecl_from_callee_expr.simps [simp del]

text \<open>
  The argument loop of the \<open>CALL_EXPR\<close> case: \<open>arg_types\<close> is the rest of the parameter
  chain, \<open>args\<close> the argument operands the iterator has still to return.
  \<^verbatim>\<open>FOR_EACH_CALL_EXPR_ARG (arg, iter, node)\<close> is
  \<^verbatim>\<open>for (arg = first_call_expr_arg (node, &iter); arg; arg = next_call_expr_arg (&iter))\<close>:
  the loop ends when the operands are used up (the iterator returns null) and also at
  the first argument operand that is null. The body then leaves the loop when the
  parameter chain is used up or its value is \<^verbatim>\<open>void_type_node\<close>.
\<close>

fun check_call_args :: "location_t \<Rightarrow> tree list \<Rightarrow> tree list \<Rightarrow> diagnostic list" where
  "check_call_args loc arg_types [] = []"
| "check_call_args loc [] (arg # args) = []"
| "check_call_args loc (param_type # arg_types) (arg # args) =
     (if arg = NULL_TREE then []
      else if param_type = void_type_node then []
      else (if param_type \<noteq> NULL_TREE \<and> arg \<noteq> NULL_TREE
            then check_narrowing_conversion loc param_type arg ''function argument''
            else [])
           @ check_call_args loc arg_types args)"

text \<open>
  The first switch of \<^verbatim>\<open>traverse_and_check_ast\<close>: the check made at the node itself.
  \<open>input_location\<close> is GCC's global current location, read when the node has none.
\<close>

definition checkpoint :: "location_t \<Rightarrow> tree \<Rightarrow> walk_data \<Rightarrow> diagnostic list" where
  "checkpoint input_location node data =
    (let loc = EXPR_LOCATION node;
         loc = (if loc = UNKNOWN_LOCATION then input_location else loc);
         code = TREE_CODE node
     in if code = VAR_DECL then
          (let initializer = DECL_INITIAL node in
           if initializer \<noteq> NULL_TREE
           then check_narrowing_conversion (DECL_SOURCE_LOCATION node) (TREE_TYPE node)
                  initializer ''variable initialization''
           else [])
        else if code = MODIFY_EXPR then
          (let lhs = TREE_OPERAND node 0; rhs = TREE_OPERAND node 1 in
           check_narrowing_conversion loc (TREE_TYPE lhs) rhs ''assignment'')
        else if code = CALL_EXPR then
          (let fn_decl = get_fndecl_from_callee_expr (CALL_EXPR_FN node) in
           if fn_decl = NULL_TREE then []
           else let fntype = TREE_TYPE fn_decl; arg_types = TYPE_ARG_TYPES fntype in
                check_call_args loc arg_types (call_expr_args node))
        else if code = RETURN_EXPR then
          (if TREE_OPERAND node 0 \<noteq> NULL_TREE
           then let retval = TREE_OPERAND node 0 in
                check_narrowing_conversion loc (function_return_type data) retval ''return value''
           else [])
        else [])"

text \<open>
  The second switch: the nodes on which the function calls itself, in the order of the
  calls. A call the source guards with a null test is left out when the child is null;
  an unguarded call is kept, and returns at once on a null child.
\<close>

definition all_operands_codes :: "tree_code list" where
  "all_operands_codes =
    [PLUS_EXPR, MINUS_EXPR, MULT_EXPR, TRUNC_DIV_EXPR,
     CEIL_DIV_EXPR, FLOOR_DIV_EXPR, ROUND_DIV_EXPR,
     TRUNC_MOD_EXPR, CEIL_MOD_EXPR, FLOOR_MOD_EXPR, ROUND_MOD_EXPR,
     RDIV_EXPR, EXACT_DIV_EXPR, ADDR_EXPR, FDESC_EXPR,
     BIT_IOR_EXPR, BIT_XOR_EXPR, BIT_AND_EXPR, BIT_NOT_EXPR,
     TRUTH_ANDIF_EXPR, TRUTH_ORIF_EXPR, TRUTH_AND_EXPR,
     TRUTH_OR_EXPR, TRUTH_XOR_EXPR, TRUTH_NOT_EXPR, LT_EXPR,
     LE_EXPR, GT_EXPR, GE_EXPR, EQ_EXPR, NE_EXPR,
     UNORDERED_EXPR, ORDERED_EXPR, UNLT_EXPR, UNLE_EXPR,
     UNGT_EXPR, UNGE_EXPR, UNEQ_EXPR, LTGT_EXPR,
     INDIRECT_REF, COMPOUND_EXPR, MODIFY_EXPR, INIT_EXPR,
     TARGET_EXPR, COND_EXPR, VEC_COND_EXPR, VEC_PERM_EXPR,
     CALL_EXPR, WITH_CLEANUP_EXPR, CLEANUP_POINT_EXPR,
     CONSTRUCTOR, COMPOUND_LITERAL_EXPR, SAVE_EXPR,
     REALIGN_LOAD_EXPR, CONVERT_EXPR, NOP_EXPR, VIEW_CONVERT_EXPR,
     NON_LVALUE_EXPR, ABS_EXPR,
     LSHIFT_EXPR, RSHIFT_EXPR, LROTATE_EXPR, RROTATE_EXPR,
     FLOAT_EXPR, FIX_TRUNC_EXPR]"

definition non_null :: "tree \<Rightarrow> tree list" where
  "non_null t = (if t \<noteq> NULL_TREE then [t] else [])"

definition non_null_operands :: "tree \<Rightarrow> tree list" where
  "non_null_operands node =
     concat (map (\<lambda>i. non_null (TREE_OPERAND node i)) [0 ..< TREE_OPERAND_LENGTH node])"

text \<open>
  The accessors of the statement nodes (\<^verbatim>\<open>tree.h\<close>, \<^verbatim>\<open>c-common.h\<close>, \<^verbatim>\<open>cp-tree.h\<close>): each
  reads one operand. \<open>SWITCH_COND\<close> and \<open>SWITCH_BODY\<close> are the accessors of \<open>SWITCH_EXPR\<close>,
  which the plugin applies to a \<open>SWITCH_STMT\<close>; they read operands 0 and 1, where a
  \<open>SWITCH_STMT\<close> keeps its condition and its body.
\<close>

abbreviation (input) BIND_EXPR_VARS :: "tree \<Rightarrow> tree" where
  "BIND_EXPR_VARS node \<equiv> TREE_OPERAND node 0"

abbreviation (input) BIND_EXPR_BODY :: "tree \<Rightarrow> tree" where
  "BIND_EXPR_BODY node \<equiv> TREE_OPERAND node 1"

abbreviation (input) EXPR_STMT_EXPR :: "tree \<Rightarrow> tree" where
  "EXPR_STMT_EXPR node \<equiv> TREE_OPERAND node 0"

abbreviation (input) IF_COND :: "tree \<Rightarrow> tree" where
  "IF_COND node \<equiv> TREE_OPERAND node 0"

abbreviation (input) THEN_CLAUSE :: "tree \<Rightarrow> tree" where
  "THEN_CLAUSE node \<equiv> TREE_OPERAND node 1"

abbreviation (input) ELSE_CLAUSE :: "tree \<Rightarrow> tree" where
  "ELSE_CLAUSE node \<equiv> TREE_OPERAND node 2"

abbreviation (input) FOR_INIT_STMT :: "tree \<Rightarrow> tree" where
  "FOR_INIT_STMT node \<equiv> TREE_OPERAND node 0"

abbreviation (input) FOR_COND :: "tree \<Rightarrow> tree" where
  "FOR_COND node \<equiv> TREE_OPERAND node 1"

abbreviation (input) FOR_EXPR :: "tree \<Rightarrow> tree" where
  "FOR_EXPR node \<equiv> TREE_OPERAND node 2"

abbreviation (input) FOR_BODY :: "tree \<Rightarrow> tree" where
  "FOR_BODY node \<equiv> TREE_OPERAND node 3"

abbreviation (input) WHILE_COND :: "tree \<Rightarrow> tree" where
  "WHILE_COND node \<equiv> TREE_OPERAND node 0"

abbreviation (input) WHILE_BODY :: "tree \<Rightarrow> tree" where
  "WHILE_BODY node \<equiv> TREE_OPERAND node 1"

abbreviation (input) DO_COND :: "tree \<Rightarrow> tree" where
  "DO_COND node \<equiv> TREE_OPERAND node 0"

abbreviation (input) DO_BODY :: "tree \<Rightarrow> tree" where
  "DO_BODY node \<equiv> TREE_OPERAND node 1"

abbreviation (input) SWITCH_COND :: "tree \<Rightarrow> tree" where
  "SWITCH_COND node \<equiv> TREE_OPERAND node 0"

abbreviation (input) SWITCH_BODY :: "tree \<Rightarrow> tree" where
  "SWITCH_BODY node \<equiv> TREE_OPERAND node 1"

abbreviation (input) CASE_LOW :: "tree \<Rightarrow> tree" where
  "CASE_LOW node \<equiv> TREE_OPERAND node 0"

abbreviation (input) CASE_HIGH :: "tree \<Rightarrow> tree" where
  "CASE_HIGH node \<equiv> TREE_OPERAND node 1"

abbreviation (input) DECL_EXPR_DECL :: "tree \<Rightarrow> tree" where
  "DECL_EXPR_DECL node \<equiv> TREE_OPERAND node 0"

definition descent :: "tree \<Rightarrow> tree list" where
  "descent node =
    (let code = TREE_CODE node in
     if code \<in> set all_operands_codes then non_null_operands node
     else if code = BIND_EXPR then non_null (BIND_EXPR_VARS node) @ non_null (BIND_EXPR_BODY node)
     else if code = STATEMENT_LIST then tsi_stmts node
     else if code = EXPR_STMT then [EXPR_STMT_EXPR node]
     else if code = IF_STMT then
       [IF_COND node, THEN_CLAUSE node] @ non_null (ELSE_CLAUSE node)
     else if code = FOR_STMT then
       [FOR_INIT_STMT node, FOR_COND node, FOR_EXPR node, FOR_BODY node]
     else if code = WHILE_STMT then [WHILE_COND node, WHILE_BODY node]
     else if code = DO_STMT then [DO_BODY node, DO_COND node]
     else if code = SWITCH_STMT then [SWITCH_COND node, SWITCH_BODY node]
     else if code = CASE_LABEL_EXPR then [CASE_LOW node] @ non_null (CASE_HIGH node)
     else if code = DECL_EXPR then [DECL_EXPR_DECL node]
     else if code = VAR_DECL \<or> code = PARM_DECL \<or> code = FIELD_DECL then
       non_null (DECL_INITIAL node)
     else if TREE_CODE_CLASS code = tcc_expression then non_null_operands node
     else [])"

datatype (plugins only: size) event = Traversing tree | Warning diagnostic


lemma tree_measure_DECL_INITIAL:
  "node \<noteq> NULL_TREE \<Longrightarrow> tree_measure (DECL_INITIAL node) < tree_measure node"
  by (cases node) (simp_all add: tree_measure_def)

lemma tree_measure_tsi_stmts:
  "x \<in> set (tsi_stmts node) \<Longrightarrow> tree_measure x < tree_measure node"
proof (cases node)
  case (Tree_statement_list ss)
  assume "x \<in> set (tsi_stmts node)"
  with Tree_statement_list have "tree_measure x \<le> Suc (size_list size ss)"
    by (simp add: tree_measure_member)
  with Tree_statement_list show ?thesis by (simp add: tree_measure_def)
qed simp_all

lemma tree_measure_non_null_operands:
  "x \<in> set (non_null_operands node) \<Longrightarrow> node \<noteq> NULL_TREE \<Longrightarrow>
     tree_measure x < tree_measure node"
  by (auto simp: non_null_operands_def non_null_def tree_measure_TREE_OPERAND split: if_splits)

lemma tree_measure_descent:
  assumes "child \<in> set (descent node)" and "node \<noteq> NULL_TREE"
  shows "tree_measure child < tree_measure node"
proof -
  note ms = tree_measure_TREE_OPERAND [OF assms(2)] tree_measure_DECL_INITIAL [OF assms(2)]
  from assms(1) show ?thesis
    unfolding descent_def Let_def
    by (auto simp: non_null_def ms tree_measure_tsi_stmts
          tree_measure_non_null_operands [OF _ assms(2)]
        split: if_splits)
qed

text \<open>
  \<^verbatim>\<open>traverse_and_check_ast\<close>. Its result is what the call does, in order: \<open>Traversing n\<close>
  when the function is entered on a non-null node \<open>n\<close> (where the source prints
  \<^verbatim>\<open>"Traversing node: ..."\<close> under \<^verbatim>\<open>DEBUG_PLUGIN\<close>), \<open>Warning d\<close> for every \<^verbatim>\<open>warning_at\<close>.
\<close>

function traverse_and_check_ast :: "location_t \<Rightarrow> tree \<Rightarrow> walk_data \<Rightarrow> event list" where
  "traverse_and_check_ast input_location node data =
    (if node = NULL_TREE then []
     else Traversing node # map Warning (checkpoint input_location node data)
          @ concat (map (\<lambda>child. traverse_and_check_ast input_location child data)
                        (descent node)))"
  by pat_completeness auto
termination
  by (relation "measure (\<lambda>(l, node, d). tree_measure node)")
     (auto intro: tree_measure_descent)

declare traverse_and_check_ast.simps [simp del]

text \<open>The diagnostics of a run, and the nodes it visited, in order.\<close>

fun warnings :: "event list \<Rightarrow> diagnostic list" where
  "warnings [] = []"
| "warnings (Traversing n # es) = warnings es"
| "warnings (Warning d # es) = d # warnings es"

fun visited :: "event list \<Rightarrow> tree list" where
  "visited [] = []"
| "visited (Traversing n # es) = n # visited es"
| "visited (Warning d # es) = visited es"


section \<open>Vocabulary of the specification\<close>

text \<open>
  The specification speaks of a type's \<^emph>\<open>kind\<close> (integer, floating, other) and its
  \<^emph>\<open>bit width\<close>. The plugin reads the kind off the code of the main variant and the width
  off \<open>TYPE_PRECISION\<close> of the type itself. \<open>narrowing_pattern\<close> is the specification's table of
  the three lossy patterns, written from its words.
\<close>

datatype type_kind = Integer_kind | Floating_kind | Other_kind

definition kind_of :: "tree \<Rightarrow> type_kind" where
  "kind_of type =
     (if TREE_CODE (TYPE_MAIN_VARIANT type) = INTEGER_TYPE then Integer_kind
      else if TREE_CODE (TYPE_MAIN_VARIANT type) = REAL_TYPE then Floating_kind
      else Other_kind)"

definition width_of :: "tree \<Rightarrow> nat" where
  "width_of type = TYPE_PRECISION type"

definition narrowing_pattern :: "tree \<Rightarrow> tree \<Rightarrow> bool" where
  "narrowing_pattern from_type to_type \<longleftrightarrow>
     (kind_of from_type = kind_of to_type \<and> kind_of from_type \<noteq> Other_kind
        \<and> width_of from_type = 64 \<and> width_of to_type = 32)
   \<or> (kind_of from_type = Integer_kind \<and> width_of from_type = 64
        \<and> kind_of to_type = Floating_kind \<and> width_of to_type = 32)
   \<or> (kind_of from_type = Floating_kind \<and> width_of from_type = 64
        \<and> kind_of to_type = Integer_kind \<and> width_of to_type = 32)"

text \<open>The diagnostic a detected conversion produces.\<close>

definition lossy :: "location_t \<Rightarrow> tree \<Rightarrow> tree \<Rightarrow> string \<Rightarrow> diagnostic" where
  "lossy loc from_type to_type context =
     \<lparr>diag_loc = loc, diag_from = get_type_name from_type,
      diag_to = get_type_name to_type, diag_context = context\<rparr>"

subsection \<open>Nodes of the examples\<close>

text \<open>
  The types of \<^verbatim>\<open>test.cc\<close> on an LP64 target: \<^verbatim>\<open>int64_t\<close> and \<^verbatim>\<open>int32_t\<close> are typedef
  variants of \<^verbatim>\<open>long int\<close> and \<^verbatim>\<open>int\<close>.
\<close>

definition type_decl :: "string \<Rightarrow> tree" where
  "type_decl name = Tree_decl TYPE_DECL 0 (Tree_identifier name) NULL_TREE NULL_TREE"

definition long_integer_type_node :: tree where
  "long_integer_type_node = Tree_type INTEGER_TYPE 64 (type_decl ''long int'') NULL_TREE []"

definition int64_t_type :: tree where
  "int64_t_type = Tree_type INTEGER_TYPE 64 (type_decl ''int64_t'') long_integer_type_node []"

definition integer_type_node :: tree where
  "integer_type_node = Tree_type INTEGER_TYPE 32 (type_decl ''int'') NULL_TREE []"

definition int32_t_type :: tree where
  "int32_t_type = Tree_type INTEGER_TYPE 32 (type_decl ''int32_t'') integer_type_node []"

definition float_type_node :: tree where
  "float_type_node = Tree_type REAL_TYPE 32 (type_decl ''float'') NULL_TREE []"

definition double_type_node :: tree where
  "double_type_node = Tree_type REAL_TYPE 64 (type_decl ''double'') NULL_TREE []"

text \<open>A use of a variable or parameter: the declaration node itself.\<close>

definition var_ref :: "string \<Rightarrow> tree \<Rightarrow> tree" where
  "var_ref name type = Tree_decl VAR_DECL 1 (Tree_identifier name) type NULL_TREE"

text \<open>
  A function declaration with the given parameter chain, the address of a declaration (as
  the callee of a direct call), and a call with GCC's operand layout.
\<close>

definition function_decl :: "string \<Rightarrow> tree list \<Rightarrow> tree" where
  "function_decl name arg_types =
     Tree_decl FUNCTION_DECL 1 (Tree_identifier name)
       (Tree_type FUNCTION_TYPE 0 NULL_TREE NULL_TREE arg_types) NULL_TREE"

definition pointer_type_node :: tree where
  "pointer_type_node = Tree_type POINTER_TYPE 64 NULL_TREE NULL_TREE []"

definition addr_expr :: "tree \<Rightarrow> tree" where
  "addr_expr decl = Tree_exp ADDR_EXPR 0 pointer_type_node [decl]"

definition call_expr :: "location_t \<Rightarrow> tree \<Rightarrow> tree \<Rightarrow> tree list \<Rightarrow> tree" where
  "call_expr loc type fn args =
     Tree_exp CALL_EXPR loc type
       ([Tree_cst INTEGER_CST integer_type_node (int (length args) + 3), fn, NULL_TREE] @ args)"

subsection \<open>Conversion wrappers\<close>

text \<open>
  \<open>wrap ws e\<close> nests \<open>e\<close> in one single-operand node per entry of \<open>ws\<close> (code, location
  and type of the wrapper), the first entry outermost. The wrappers are pure conversions
  when every code is one that the loop of \<open>get_original_type\<close> peels.
\<close>

fun wrap :: "(tree_code \<times> location_t \<times> tree) list \<Rightarrow> tree \<Rightarrow> tree" where
  "wrap [] e = e"
| "wrap ((code, loc, type) # ws) e = Tree_exp code loc type [wrap ws e]"

definition conversion_wrappers :: "(tree_code \<times> location_t \<times> tree) list \<Rightarrow> bool" where
  "conversion_wrappers ws = list_all (\<lambda>(code, loc, type). is_conversion_code code) ws"

text \<open>
  \<^verbatim>\<open>int32_t r = i;\<close> with \<^verbatim>\<open>int64_t i\<close>, as the initialization the front end builds.
\<close>

definition init_r :: tree where
  "init_r = Tree_exp INIT_EXPR 5 int32_t_type
     [var_ref ''r'' int32_t_type, Tree_exp NOP_EXPR 5 int32_t_type [var_ref ''i'' int64_t_type]]"

subsection \<open>Calls and returns\<close>

text \<open>
  The location a check at \<open>node\<close> reports; the arguments a call supplies: its argument
  operands up to the end of the operand vector or the first null operand, where the
  argument iteration ends; and the (parameter type, argument) pairs the specification
  lets a resolved call check: the parameters up to the \<^verbatim>\<open>void\<close> marker paired with the
  supplied arguments in order, as far as the shorter list reaches.
\<close>

definition node_location :: "location_t \<Rightarrow> tree \<Rightarrow> location_t" where
  "node_location input_location node =
     (if EXPR_LOCATION node = UNKNOWN_LOCATION then input_location else EXPR_LOCATION node)"

definition supplied_args :: "tree list \<Rightarrow> tree list" where
  "supplied_args args = takeWhile (\<lambda>arg. arg \<noteq> NULL_TREE) args"

definition fixed_params :: "tree list \<Rightarrow> tree list" where
  "fixed_params arg_types = takeWhile (\<lambda>p. p \<noteq> void_type_node) arg_types"

definition checked_pairs :: "tree list \<Rightarrow> tree list \<Rightarrow> (tree \<times> tree) list" where
  "checked_pairs arg_types args = zip (fixed_params arg_types) (supplied_args args)"

text \<open>
  \<^verbatim>\<open>g (i64)\<close> for \<^verbatim>\<open>int32_t g (int32_t)\<close>; \<^verbatim>\<open>return g (i64);\<close> in a function returning
  \<^verbatim>\<open>int32_t\<close>; \<^verbatim>\<open>h (i64)\<close> for \<^verbatim>\<open>void h (int32_t, float)\<close> with the second argument not
  supplied; a call of \<^verbatim>\<open>void g2 (int32_t, int32_t)\<close> whose first argument operand is null
  and whose second is \<^verbatim>\<open>i64\<close>; \<^verbatim>\<open>fp (i64)\<close> and \<^verbatim>\<open>fp (i32 = i64)\<close> through a pointer
  variable \<^verbatim>\<open>fp\<close>.
\<close>

definition direct_call :: tree where
  "direct_call = call_expr 9 int32_t_type
     (addr_expr (function_decl ''g'' [int32_t_type, void_type_node]))
     [var_ref ''i64'' int64_t_type]"

definition return_call :: tree where
  "return_call = Tree_exp RETURN_EXPR 9 void_type_node
     [Tree_exp INIT_EXPR 9 int32_t_type
        [Tree_decl RESULT_DECL 1 NULL_TREE int32_t_type NULL_TREE, direct_call]]"

definition short_call :: tree where
  "short_call = call_expr 9 void_type_node
     (addr_expr (function_decl ''h'' [int32_t_type, float_type_node, void_type_node]))
     [var_ref ''i64'' int64_t_type]"

definition null_arg_call :: tree where
  "null_arg_call = call_expr 9 void_type_node
     (addr_expr (function_decl ''g2'' [int32_t_type, int32_t_type, void_type_node]))
     [NULL_TREE, var_ref ''i64'' int64_t_type]"

definition fp_call_plain :: tree where
  "fp_call_plain = call_expr 9 void_type_node (var_ref ''fp'' pointer_type_node)
     [var_ref ''i64'' int64_t_type]"

definition fp_call :: tree where
  "fp_call = call_expr 9 void_type_node (var_ref ''fp'' pointer_type_node)
     [Tree_exp MODIFY_EXPR 9 int32_t_type
        [var_ref ''i32'' int32_t_type,
         Tree_exp NOP_EXPR 9 int32_t_type [var_ref ''i64'' int64_t_type]]]"

text \<open>At most one diagnostic: the given one when the condition holds.\<close>

definition one_or_none :: "bool \<Rightarrow> diagnostic \<Rightarrow> diagnostic list" where
  "one_or_none b d = (if b then [d] else [])"

subsection \<open>Literal values\<close>

text \<open>
  \<open>erase_literals\<close> replaces the value of every constant in a tree by 0 and keeps everything
  else: codes, locations, types, names and shape. Two trees are identical except for the
  values of their literals exactly when \<open>erase_literals\<close> maps them to the same tree.
\<close>

fun erase_literals :: "tree \<Rightarrow> tree" where
  "erase_literals (Tree_cst c t v) = Tree_cst c t 0"
| "erase_literals (Tree_exp c l t ops) = Tree_exp c l t (map erase_literals ops)"
| "erase_literals (Tree_decl c l n t i) = Tree_decl c l n t (erase_literals i)"
| "erase_literals (Tree_statement_list ss) = Tree_statement_list (map erase_literals ss)"
| "erase_literals NULL_TREE = NULL_TREE"
| "erase_literals error_mark_node = error_mark_node"
| "erase_literals (Tree_identifier s) = Tree_identifier s"
| "erase_literals (Tree_type c p n mv args) = Tree_type c p n mv args"

text \<open>
  \<^verbatim>\<open>int64_t i64 = v; float f32 = i64;\<close> as a function body, for a literal value \<open>v\<close>.
\<close>

definition int_to_float_body :: "int \<Rightarrow> tree" where
  "int_to_float_body v =
     Tree_statement_list
       [Tree_exp DECL_EXPR 78 void_type_node
          [Tree_decl VAR_DECL 78 (Tree_identifier ''i64'') int64_t_type
             (Tree_cst INTEGER_CST int64_t_type v)],
        Tree_exp DECL_EXPR 79 void_type_node
          [Tree_decl VAR_DECL 79 (Tree_identifier ''f32'') float_type_node
             (Tree_exp FLOAT_EXPR 79 float_type_node
                [Tree_decl VAR_DECL 78 (Tree_identifier ''i64'') int64_t_type
                   (Tree_cst INTEGER_CST int64_t_type v)])]]"

subsection \<open>The nodes of a body\<close>

text \<open>
  \<open>all_nodes body\<close> lists every node reachable from \<open>body\<close> through child links, each
  occurrence once, parents first: the children of a node are its non-null operands, its
  initializer if it is a declaration, its statements if it is a statement list. It is
  written from the specification's notion of a node that owns its operands and
  sub-statements, not from the walker. A code is \<open>unrecognized\<close> when no case of the
  descent switch names it.
\<close>

fun all_nodes :: "tree \<Rightarrow> tree list" where
  "all_nodes NULL_TREE = []"
| "all_nodes (Tree_exp c l t ops) = Tree_exp c l t ops # concat (map all_nodes ops)"
| "all_nodes (Tree_decl c l n t i) = Tree_decl c l n t i # all_nodes i"
| "all_nodes (Tree_statement_list ss) = Tree_statement_list ss # concat (map all_nodes ss)"
| "all_nodes error_mark_node = [error_mark_node]"
| "all_nodes (Tree_identifier s) = [Tree_identifier s]"
| "all_nodes (Tree_type c p n mv args) = [Tree_type c p n mv args]"
| "all_nodes (Tree_cst c t v) = [Tree_cst c t v]"

definition children :: "tree \<Rightarrow> tree list" where
  "children node =
     filter (\<lambda>x. x \<noteq> NULL_TREE) (operands node @ [DECL_INITIAL node] @ tsi_stmts node)"

definition special_codes :: "tree_code list" where
  "special_codes = [BIND_EXPR, STATEMENT_LIST, EXPR_STMT, IF_STMT, FOR_STMT, WHILE_STMT,
     DO_STMT, SWITCH_STMT, CASE_LABEL_EXPR, DECL_EXPR, VAR_DECL, PARM_DECL, FIELD_DECL]"

definition unrecognized :: "tree_code \<Rightarrow> bool" where
  "unrecognized code \<longleftrightarrow> code \<notin> set all_operands_codes \<and> code \<notin> set special_codes"

text \<open>
  Two function bodies around the call \<^verbatim>\<open>g (i64)\<close>, which narrows its argument:
  \<^verbatim>\<open>return g (i64);\<close> and \<^verbatim>\<open>y = -g (i64);\<close>.
\<close>

definition return_call_body :: tree where
  "return_call_body = Tree_statement_list [return_call]"

definition negate_call :: tree where
  "negate_call = Tree_exp NEGATE_EXPR 3 int32_t_type [direct_call]"

definition negate_call_body :: tree where
  "negate_call_body =
     Tree_statement_list
       [Tree_exp EXPR_STMT 3 void_type_node
          [Tree_exp MODIFY_EXPR 3 int32_t_type [var_ref ''y'' int32_t_type, negate_call]]]"

section \<open>Evaluation rules\<close>

lemmas type_nodes = type_decl_def long_integer_type_node_def int64_t_type_def
  integer_type_node_def int32_t_type_def float_type_node_def double_type_node_def
  void_type_node_def

lemmas eval_simps = get_original_type_def peel_conversions.simps TREE_OPERAND_def
  TREE_OPERAND_LENGTH_def is_conversion_code_def check_narrowing_conversion_def
  is_numeric_type_def get_type_name_def get_fndecl_from_callee_expr.simps CALL_EXPR_FN_def
  call_expr_args_def traverse_and_check_ast.simps checkpoint_def descent_def
  all_operands_codes_def non_null_operands_def non_null_def UNKNOWN_LOCATION_def
  TREE_CODE_CLASS_def lossy_def Let_def upt_rec

section \<open>The type classifier\<close>

text \<open>
  Claim C2. For every pair of non-null, non-error types --- the destination type and the
  origin type of the source expression --- \<open>check_narrowing_conversion\<close> reports a lossy
  conversion exactly when the pair matches one of the three patterns over kind and bit
  width (same kind 64 to 32, 64-bit integer to 32-bit floating, 64-bit floating to 32-bit
  integer), and reports nothing for every other pair: widening, same width, other widths,
  a type that is not numeric.
\<close>

theorem check_narrowing_conversion_three_patterns:
  assumes "to_type \<noteq> NULL_TREE" and "to_type \<noteq> error_mark_node"
    and "get_original_type from_expr \<noteq> NULL_TREE"
    and "get_original_type from_expr \<noteq> error_mark_node"
  shows "check_narrowing_conversion loc to_type from_expr context =
     (if narrowing_pattern (get_original_type from_expr) to_type
      then [lossy loc (get_original_type from_expr) to_type context]
      else [])"
  using assms
  by (auto simp: check_narrowing_conversion_def narrowing_pattern_def kind_of_def width_of_def
      is_numeric_type_def lossy_def Let_def)

theorem check_narrowing_conversion_three_patterns_witness:
  "check_narrowing_conversion 7 float_type_node (var_ref ''i64'' int64_t_type) ''assignment''
     = [\<lparr>diag_loc = 7, diag_from = ''int64_t'', diag_to = ''float'',
          diag_context = ''assignment''\<rparr>]
   \<and> check_narrowing_conversion 7 int64_t_type (var_ref ''i32'' integer_type_node) ''assignment''
     = []"
proof -
  have o: "get_original_type (var_ref ''i64'' int64_t_type) = int64_t_type"
    "get_original_type (var_ref ''i32'' integer_type_node) = integer_type_node"
    by (simp_all add: eval_simps var_ref_def)
  have p: "narrowing_pattern int64_t_type float_type_node"
    "\<not> narrowing_pattern integer_type_node int64_t_type"
    by (simp_all add: narrowing_pattern_def kind_of_def width_of_def type_nodes)
  have n: "float_type_node \<noteq> NULL_TREE" "float_type_node \<noteq> error_mark_node"
    "int64_t_type \<noteq> NULL_TREE" "int64_t_type \<noteq> error_mark_node"
    "integer_type_node \<noteq> NULL_TREE" "integer_type_node \<noteq> error_mark_node"
    by (simp_all add: type_nodes)
  have g: "get_type_name int64_t_type = ''int64_t''" "get_type_name float_type_node = ''float''"
    by (simp_all add: get_type_name_def type_nodes)
  show ?thesis
    using check_narrowing_conversion_three_patterns
            [of float_type_node "var_ref ''i64'' int64_t_type" 7 "''assignment''"]
          check_narrowing_conversion_three_patterns
            [of int64_t_type "var_ref ''i32'' integer_type_node" 7 "''assignment''"]
    by (simp add: o p n g lossy_def)
qed

text \<open>
  Claim C7. When the destination type or the origin type of the source is null or the
  error marker, \<open>check_narrowing_conversion\<close> returns without a diagnostic: an indeterminate
  type is a silent skip. (The function is total: it returns on every input.)
\<close>

theorem check_narrowing_conversion_indeterminate:
  assumes "to_type = NULL_TREE \<or> to_type = error_mark_node
     \<or> get_original_type from_expr = NULL_TREE
     \<or> get_original_type from_expr = error_mark_node"
  shows "check_narrowing_conversion loc to_type from_expr context = []"
  using assms by (auto simp: check_narrowing_conversion_def Let_def)

theorem check_narrowing_conversion_indeterminate_witness:
  "check_narrowing_conversion 7 integer_type_node (var_ref ''broken'' error_mark_node)
     ''return value'' = []
   \<and> check_narrowing_conversion 7 NULL_TREE (var_ref ''i64'' int64_t_type) ''assignment'' = []"
proof -
  have o: "get_original_type (var_ref ''broken'' error_mark_node) = error_mark_node"
    by (simp add: eval_simps var_ref_def)
  show ?thesis
    using check_narrowing_conversion_indeterminate
            [of integer_type_node "var_ref ''broken'' error_mark_node" 7 "''return value''"]
          check_narrowing_conversion_indeterminate
            [of NULL_TREE "var_ref ''i64'' int64_t_type" 7 "''assignment''"]
    by (simp add: o)
qed

text \<open>
  Claim C10. The classification is invariant under type variants: replacing the
  destination type or the origin type by another variant of the same main type with the
  same bit width does not change whether a conversion is reported. (The type names in the
  diagnostic are those of the variants given.)
\<close>

theorem check_narrowing_conversion_variant_invariant:
  assumes "to_type \<noteq> NULL_TREE" and "to_type \<noteq> error_mark_node"
    and "to_type' \<noteq> NULL_TREE" and "to_type' \<noteq> error_mark_node"
    and "get_original_type e \<noteq> NULL_TREE" and "get_original_type e \<noteq> error_mark_node"
    and "get_original_type e' \<noteq> NULL_TREE" and "get_original_type e' \<noteq> error_mark_node"
    and "TYPE_MAIN_VARIANT to_type' = TYPE_MAIN_VARIANT to_type"
    and "TYPE_PRECISION to_type' = TYPE_PRECISION to_type"
    and "TYPE_MAIN_VARIANT (get_original_type e') = TYPE_MAIN_VARIANT (get_original_type e)"
    and "TYPE_PRECISION (get_original_type e') = TYPE_PRECISION (get_original_type e)"
  shows "(check_narrowing_conversion loc to_type' e' context = [])
     \<longleftrightarrow> (check_narrowing_conversion loc to_type e context = [])"
  using assms by (auto simp: check_narrowing_conversion_def is_numeric_type_def Let_def)

theorem check_narrowing_conversion_variant_invariant_witness:
  "(check_narrowing_conversion 7 int32_t_type (var_ref ''t'' int64_t_type) ''assignment'' = [])
     \<longleftrightarrow> (check_narrowing_conversion 7 integer_type_node (var_ref ''l'' long_integer_type_node)
            ''assignment'' = [])"
proof -
  have o: "get_original_type (var_ref ''t'' int64_t_type) = int64_t_type"
    "get_original_type (var_ref ''l'' long_integer_type_node) = long_integer_type_node"
    by (simp_all add: eval_simps var_ref_def)
  have v: "TYPE_MAIN_VARIANT int32_t_type = TYPE_MAIN_VARIANT integer_type_node"
    "TYPE_PRECISION int32_t_type = TYPE_PRECISION integer_type_node"
    "TYPE_MAIN_VARIANT int64_t_type = TYPE_MAIN_VARIANT long_integer_type_node"
    "TYPE_PRECISION int64_t_type = TYPE_PRECISION long_integer_type_node"
    by (simp_all add: type_nodes)
  have n: "int32_t_type \<noteq> NULL_TREE" "int32_t_type \<noteq> error_mark_node"
    "int64_t_type \<noteq> NULL_TREE" "int64_t_type \<noteq> error_mark_node"
    "integer_type_node \<noteq> NULL_TREE" "integer_type_node \<noteq> error_mark_node"
    "long_integer_type_node \<noteq> NULL_TREE" "long_integer_type_node \<noteq> error_mark_node"
    by (simp_all add: type_nodes)
  show ?thesis
    using check_narrowing_conversion_variant_invariant
            [of integer_type_node int32_t_type "var_ref ''l'' long_integer_type_node"
                "var_ref ''t'' int64_t_type" 7 "''assignment''"]
    by (simp add: o v n)
qed

section \<open>The conversion unwrapper\<close>

lemma peel_conversions_NULL [simp]: "peel_conversions NULL_TREE = NULL_TREE"
  by (simp add: peel_conversions.simps)

lemma peel_conversions_conv:
  "node \<noteq> NULL_TREE \<Longrightarrow> is_conversion_code (TREE_CODE node) \<Longrightarrow>
     peel_conversions node = peel_conversions (TREE_OPERAND node 0)"
  by (subst peel_conversions.simps) simp

lemma peel_conversions_other:
  "\<not> is_conversion_code (TREE_CODE node) \<Longrightarrow> peel_conversions node = node"
  by (subst peel_conversions.simps) simp

lemma peel_conversions_wrap:
  "conversion_wrappers ws \<Longrightarrow> peel_conversions (wrap ws e) = peel_conversions e"
proof (induction ws)
  case Nil
  then show ?case by simp
next
  case (Cons w ws)
  obtain code loc type where w: "w = (code, loc, type)" by (cases w)
  from Cons.prems w have c: "is_conversion_code code" and r: "conversion_wrappers ws"
    by (simp_all add: conversion_wrappers_def)
  have "peel_conversions (wrap (w # ws) e) = peel_conversions (wrap ws e)"
    using c w by (simp add: peel_conversions_conv TREE_OPERAND_def)
  with Cons.IH [OF r] show ?case by simp
qed

lemma wrap_not_INIT_EXPR:
  "conversion_wrappers ws \<Longrightarrow> ws \<noteq> [] \<Longrightarrow>
     wrap ws e \<noteq> NULL_TREE \<and> TREE_CODE (wrap ws e) \<noteq> INIT_EXPR"
  by (cases ws) (auto simp: conversion_wrappers_def is_conversion_code_def)

lemma get_original_type_wrap:
  assumes "conversion_wrappers ws" and "ws \<noteq> []"
    and "e \<noteq> NULL_TREE" and "\<not> is_conversion_code (TREE_CODE e)"
  shows "get_original_type (wrap ws e) = TREE_TYPE e"
  using wrap_not_INIT_EXPR [OF assms(1,2), of e] assms(3,4)
  by (simp add: get_original_type_def peel_conversions_wrap [OF assms(1)] peel_conversions_other)

lemma get_original_type_plain:
  assumes "e \<noteq> NULL_TREE" and "\<not> is_conversion_code (TREE_CODE e)"
    and "TREE_CODE e \<noteq> INIT_EXPR"
  shows "get_original_type e = TREE_TYPE e"
  using assms by (simp add: get_original_type_def peel_conversions_other)

text \<open>
  Claim C4, as stated: for every expression node \<open>e\<close> and every \<open>N \<ge> 1\<close>, \<open>N\<close> nested
  conversion wrappers around \<open>e\<close> give the same origin type as \<open>N - 1\<close> wrappers. It fails
  for \<open>N = 1\<close> when \<open>e\<close> is an initialization: \<open>get_original_type\<close> looks through an
  \<open>INIT_EXPR\<close> only when it is the outermost node, so the bare initialization \<open>init_r\<close> has
  the origin type of its value, \<^verbatim>\<open>int64_t\<close>, and the same node inside one wrapper has
  the initialization's own type, \<^verbatim>\<open>int32_t\<close>.
\<close>

theorem get_original_type_wrapped_init_counterexample:
  "get_original_type (wrap [(NOP_EXPR, 5, void_type_node)] init_r) = int32_t_type
   \<and> get_original_type (wrap [] init_r) = int64_t_type
   \<and> int32_t_type \<noteq> int64_t_type"
  by (simp add: eval_simps init_r_def var_ref_def type_nodes)

text \<open>
  Claim C4, amended. For every non-null node \<open>e\<close> that is not itself a conversion wrapper
  and every \<open>N \<ge> 1\<close>, the origin type of \<open>e\<close> inside \<open>N\<close> nested conversion wrappers is the
  type of \<open>e\<close>: all layers are peeled. Hence \<open>N\<close> wrappers give the same result as one
  wrapper, and the same as \<open>N - 1\<close> wrappers when \<open>N - 1 \<ge> 1\<close> or \<open>e\<close> is not an
  \<open>INIT_EXPR\<close>.
\<close>

theorem get_original_type_peels_all_wrappers:
  assumes "conversion_wrappers ws" and "ws \<noteq> []"
    and "e \<noteq> NULL_TREE" and "\<not> is_conversion_code (TREE_CODE e)"
  shows "get_original_type (wrap ws e) = TREE_TYPE e
    \<and> get_original_type (wrap [hd ws] e) = get_original_type (wrap ws e)
    \<and> (tl ws \<noteq> [] \<or> TREE_CODE e \<noteq> INIT_EXPR \<longrightarrow>
         get_original_type (wrap (tl ws) e) = get_original_type (wrap ws e))"
proof -
  have a: "get_original_type (wrap ws e) = TREE_TYPE e"
    using assms by (rule get_original_type_wrap)
  have "conversion_wrappers [hd ws]"
    using assms(1,2) by (cases ws) (simp_all add: conversion_wrappers_def)
  then have b: "get_original_type (wrap [hd ws] e) = TREE_TYPE e"
    using assms(3,4) by (intro get_original_type_wrap) simp_all
  have c: "get_original_type (wrap (tl ws) e) = TREE_TYPE e"
    if "tl ws \<noteq> [] \<or> TREE_CODE e \<noteq> INIT_EXPR"
  proof (cases "tl ws = []")
    case True
    with that assms(3,4) show ?thesis by (simp add: get_original_type_plain)
  next
    case False
    have "conversion_wrappers (tl ws)"
      using assms(1,2) by (cases ws) (simp_all add: conversion_wrappers_def)
    then show ?thesis using False assms(3,4) by (rule get_original_type_wrap)
  qed
  from a b c show ?thesis by simp
qed

theorem get_original_type_peels_all_wrappers_witness:
  "get_original_type
     (wrap [(NOP_EXPR, 5, float_type_node), (FLOAT_EXPR, 5, double_type_node)]
        (var_ref ''i'' int64_t_type)) = int64_t_type
   \<and> get_original_type (wrap [(NOP_EXPR, 5, float_type_node)] (var_ref ''i'' int64_t_type))
       = int64_t_type
   \<and> get_original_type (wrap [(FLOAT_EXPR, 5, double_type_node)] (var_ref ''i'' int64_t_type))
       = int64_t_type"
  using get_original_type_peels_all_wrappers
    [of "[(NOP_EXPR, 5, float_type_node), (FLOAT_EXPR, 5, double_type_node)]"
        "var_ref ''i'' int64_t_type"]
  by (simp add: conversion_wrappers_def is_conversion_code_def var_ref_def)

section \<open>The walker: rules of the recursion\<close>

lemma concat_map_non_null: "concat (map non_null xs) = filter (\<lambda>x. x \<noteq> NULL_TREE) xs"
  by (induction xs) (simp_all add: non_null_def)

lemma non_null_operands_filter:
  "non_null_operands node = filter (\<lambda>x. x \<noteq> NULL_TREE) (operands node)"
proof -
  have "map (\<lambda>i. non_null (TREE_OPERAND node i)) [0 ..< length (operands node)]
      = map non_null (map (\<lambda>i. operands node ! i) [0 ..< length (operands node)])"
    by (simp add: TREE_OPERAND_def)
  also have "\<dots> = map non_null (operands node)" by (simp only: map_nth)
  finally show ?thesis
    by (simp add: non_null_operands_def TREE_OPERAND_LENGTH_def concat_map_non_null)
qed

lemma traverse_NULL [simp]: "traverse_and_check_ast input_location NULL_TREE data = []"
  by (simp add: traverse_and_check_ast.simps)

lemma traverse_node:
  "node \<noteq> NULL_TREE \<Longrightarrow>
   traverse_and_check_ast input_location node data =
     Traversing node # map Warning (checkpoint input_location node data)
     @ concat (map (\<lambda>child. traverse_and_check_ast input_location child data) (descent node))"
  by (subst traverse_and_check_ast.simps) simp

lemma warnings_append [simp]: "warnings (xs @ ys) = warnings xs @ warnings ys"
  by (induction xs rule: warnings.induct) simp_all

lemma warnings_map_Warning [simp]: "warnings (map Warning ds) = ds"
  by (induction ds) simp_all

lemma warnings_concat: "warnings (concat xss) = concat (map warnings xss)"
  by (induction xss) simp_all

lemma visited_append [simp]: "visited (xs @ ys) = visited xs @ visited ys"
  by (induction xs rule: visited.induct) simp_all

lemma visited_map_Warning [simp]: "visited (map Warning ds) = []"
  by (induction ds) simp_all

lemma visited_concat: "visited (concat xss) = concat (map visited xss)"
  by (induction xss) simp_all

lemma concat_map_filter_non_null:
  "concat (map (\<lambda>child. f (traverse_and_check_ast input_location child data))
               (filter (\<lambda>x. x \<noteq> NULL_TREE) xs))
   = concat (map (\<lambda>child. f (traverse_and_check_ast input_location child data)) xs)"
  if "f [] = []"
  using that by (induction xs) simp_all

lemma warnings_traverse_node:
  "node \<noteq> NULL_TREE \<Longrightarrow>
   warnings (traverse_and_check_ast input_location node data) =
     checkpoint input_location node data
     @ concat (map (\<lambda>child. warnings (traverse_and_check_ast input_location child data))
                   (descent node))"
  by (simp add: traverse_node warnings_concat comp_def)

lemma visited_traverse_node:
  "node \<noteq> NULL_TREE \<Longrightarrow>
   visited (traverse_and_check_ast input_location node data) =
     node # concat (map (\<lambda>child. visited (traverse_and_check_ast input_location child data))
                   (descent node))"
  by (simp add: traverse_node visited_concat comp_def)

lemma descent_all_operands:
  "TREE_CODE node \<in> set all_operands_codes \<Longrightarrow>
     descent node = filter (\<lambda>x. x \<noteq> NULL_TREE) (operands node)"
  by (simp add: descent_def non_null_operands_filter)

lemma CALL_EXPR_all_operands [simp]: "CALL_EXPR \<in> set all_operands_codes"
  by (simp add: all_operands_codes_def)

lemma get_original_type_NULL [simp]: "get_original_type NULL_TREE = NULL_TREE"
  by (simp add: get_original_type_def)

lemma check_narrowing_conversion_NULL [simp]:
  "check_narrowing_conversion loc NULL_TREE e context = []"
  "check_narrowing_conversion loc t NULL_TREE context = []"
  by (simp_all add: check_narrowing_conversion_def)

lemma check_call_args_pairs:
  "check_call_args loc arg_types args =
     concat (map (\<lambda>(param_type, arg).
                    check_narrowing_conversion loc param_type arg ''function argument'')
                 (checked_pairs arg_types args))"
  by (induction loc arg_types args rule: check_call_args.induct)
     (auto simp: checked_pairs_def fixed_params_def supplied_args_def)

lemma check_call_args_null_argument:
  "check_call_args loc arg_types (NULL_TREE # args) = []"
  by (cases arg_types) simp_all

lemma supplied_args_all:
  "NULL_TREE \<notin> set args \<Longrightarrow> supplied_args args = args"
  by (auto simp: supplied_args_def takeWhile_eq_all_conv)

lemma take_takeWhile_prefix:
  "take n (takeWhile P xs) = take (min n (length (takeWhile P xs))) xs"
proof -
  have "take n (takeWhile P xs) = take n (take (length (takeWhile P xs)) xs)"
    by (metis takeWhile_eq_take)
  then show ?thesis by simp
qed

lemmas example_nodes = var_ref_def function_decl_def pointer_type_node_def addr_expr_def
  call_expr_def

section \<open>Calls\<close>

text \<open>
  Claim C5. At a call node whose callee resolves to a function declaration, the walker
  checks the declared parameter types against the supplied arguments pairwise and in
  order, each pair on its own: exactly the pairs of \<open>checked_pairs\<close>, which stop at the
  shorter of the two lists or at the \<^verbatim>\<open>void\<close> marker of the parameter list. A call with
  fewer arguments than parameters checks the supplied arguments only. The supplied
  arguments are the argument operands up to the point where the argument iteration
  ends: all of them when none is null.
\<close>

theorem call_argument_pairing:
  assumes "node \<noteq> NULL_TREE" and "TREE_CODE node = CALL_EXPR"
    and "get_fndecl_from_callee_expr (CALL_EXPR_FN node) = fn_decl"
    and "fn_decl \<noteq> NULL_TREE"
    and "pairs = checked_pairs (TYPE_ARG_TYPES (TREE_TYPE fn_decl)) (call_expr_args node)"
  shows "checkpoint input_location node data =
           concat (map (\<lambda>(param_type, arg).
                          check_narrowing_conversion (node_location input_location node)
                            param_type arg ''function argument'')
                       pairs)
     \<and> map snd pairs = take (length pairs) (call_expr_args node)
     \<and> map fst pairs = take (length pairs) (TYPE_ARG_TYPES (TREE_TYPE fn_decl))
     \<and> length pairs =
         min (length (fixed_params (TYPE_ARG_TYPES (TREE_TYPE fn_decl))))
             (length (supplied_args (call_expr_args node)))
     \<and> (NULL_TREE \<notin> set (call_expr_args node) \<longrightarrow>
          supplied_args (call_expr_args node) = call_expr_args node)"
proof -
  have "checkpoint input_location node data =
      check_call_args (node_location input_location node)
        (TYPE_ARG_TYPES (TREE_TYPE fn_decl)) (call_expr_args node)"
    using assms(2,3,4) by (simp add: checkpoint_def node_location_def Let_def)
  then have a: "checkpoint input_location node data =
           concat (map (\<lambda>(param_type, arg).
                          check_narrowing_conversion (node_location input_location node)
                            param_type arg ''function argument'')
                       pairs)"
    by (simp add: check_call_args_pairs assms(5))
  have b: "map snd pairs = take (length pairs) (call_expr_args node)"
    unfolding assms(5) checked_pairs_def fixed_params_def supplied_args_def
    by (simp add: map_snd_zip_take take_takeWhile_prefix min.commute min.left_commute)
  have c: "map fst pairs = take (length pairs) (TYPE_ARG_TYPES (TREE_TYPE fn_decl))"
    unfolding assms(5) checked_pairs_def fixed_params_def supplied_args_def
    by (simp add: map_fst_zip_take take_takeWhile_prefix min.commute min.left_commute)
  have d: "length pairs =
         min (length (fixed_params (TYPE_ARG_TYPES (TREE_TYPE fn_decl))))
             (length (supplied_args (call_expr_args node)))"
    unfolding assms(5) checked_pairs_def by simp
  from a b c d show ?thesis by (simp add: supplied_args_all)
qed

text \<open>
  The witness: \<^verbatim>\<open>h (i64)\<close> checks its one argument against the first of two
  parameters; the call whose first argument operand is null checks nothing, as the
  argument iteration ends there.
\<close>

theorem call_argument_pairing_witness:
  "checkpoint 0 short_call \<lparr>function_return_type = void_type_node\<rparr>
     = check_narrowing_conversion 9 int32_t_type (var_ref ''i64'' int64_t_type)
         ''function argument''
   \<and> checkpoint 0 short_call \<lparr>function_return_type = void_type_node\<rparr>
     = [\<lparr>diag_loc = 9, diag_from = ''int64_t'', diag_to = ''int32_t'',
          diag_context = ''function argument''\<rparr>]
   \<and> checkpoint 0 null_arg_call \<lparr>function_return_type = void_type_node\<rparr> = []"
proof -
  let ?h = "function_decl ''h'' [int32_t_type, float_type_node, void_type_node]"
  let ?g = "function_decl ''g2'' [int32_t_type, int32_t_type, void_type_node]"
  have f: "get_fndecl_from_callee_expr (CALL_EXPR_FN short_call) = ?h"
    "get_fndecl_from_callee_expr (CALL_EXPR_FN null_arg_call) = ?g"
    by (simp_all add: eval_simps example_nodes short_call_def null_arg_call_def)
  have p: "checked_pairs (TYPE_ARG_TYPES (TREE_TYPE ?h)) (call_expr_args short_call)
     = [(int32_t_type, var_ref ''i64'' int64_t_type)]"
    "checked_pairs (TYPE_ARG_TYPES (TREE_TYPE ?g)) (call_expr_args null_arg_call) = []"
    by (simp_all add: checked_pairs_def fixed_params_def supplied_args_def call_expr_args_def
        example_nodes short_call_def null_arg_call_def type_nodes)
  have n: "short_call \<noteq> NULL_TREE" "TREE_CODE short_call = CALL_EXPR" "?h \<noteq> NULL_TREE"
    "node_location 0 short_call = 9"
    "null_arg_call \<noteq> NULL_TREE" "TREE_CODE null_arg_call = CALL_EXPR" "?g \<noteq> NULL_TREE"
    by (simp_all add: example_nodes short_call_def null_arg_call_def node_location_def
        UNKNOWN_LOCATION_def)
  have e: "check_narrowing_conversion 9 int32_t_type (var_ref ''i64'' int64_t_type)
         ''function argument''
     = [\<lparr>diag_loc = 9, diag_from = ''int64_t'', diag_to = ''int32_t'',
          diag_context = ''function argument''\<rparr>]"
    by (simp add: eval_simps example_nodes type_nodes)
  show ?thesis
    using call_argument_pairing [OF n(1) n(2) f(1) n(3) p(1) [symmetric], of 0
            "\<lparr>function_return_type = void_type_node\<rparr>"]
          call_argument_pairing [OF n(5) n(6) f(2) n(7) p(2) [symmetric], of 0
            "\<lparr>function_return_type = void_type_node\<rparr>"]
    by (simp add: n e)
qed

text \<open>
  Claim C6, as stated: the walk of a call whose callee cannot be resolved produces zero
  diagnostics. It fails when an operand of the call contains a checkpoint of its own: the
  walker still descends into the operands of the call, so the assignment inside
  \<^verbatim>\<open>fp (i32 = i64)\<close> is reported.
\<close>

theorem unresolved_call_nested_checkpoint_counterexample:
  "TREE_CODE fp_call = CALL_EXPR
   \<and> get_fndecl_from_callee_expr (CALL_EXPR_FN fp_call) = NULL_TREE
   \<and> warnings (traverse_and_check_ast 0 fp_call \<lparr>function_return_type = void_type_node\<rparr>)
      = [\<lparr>diag_loc = 9, diag_from = ''int64_t'', diag_to = ''int32_t'',
           diag_context = ''assignment''\<rparr>]"
  by (simp add: eval_simps example_nodes fp_call_def type_nodes)

text \<open>
  Claim C6, amended. At a call node whose callee cannot be unwrapped to a function
  declaration, the argument check is skipped entirely: the check at the node produces no
  diagnostic, whatever the types of the arguments, and nothing else happens there. The
  walk of the call then produces exactly the diagnostics of the walks of its operands.
\<close>

theorem unresolved_call_skips_argument_check:
  assumes "node \<noteq> NULL_TREE" and "TREE_CODE node = CALL_EXPR"
    and "get_fndecl_from_callee_expr (CALL_EXPR_FN node) = NULL_TREE"
  shows "checkpoint input_location node data = []
    \<and> warnings (traverse_and_check_ast input_location node data) =
        concat (map (\<lambda>op. warnings (traverse_and_check_ast input_location op data))
                    (operands node))"
proof -
  have a: "checkpoint input_location node data = []"
    using assms(2,3) by (simp add: checkpoint_def)
  have "descent node = filter (\<lambda>x. x \<noteq> NULL_TREE) (operands node)"
    using assms(2) by (simp add: descent_all_operands)
  with a assms(1) show ?thesis
    by (simp add: warnings_traverse_node concat_map_filter_non_null)
qed

theorem unresolved_call_skips_argument_check_witness:
  "checkpoint 0 fp_call_plain \<lparr>function_return_type = void_type_node\<rparr> = []
   \<and> warnings (traverse_and_check_ast 0 fp_call_plain \<lparr>function_return_type = void_type_node\<rparr>)
      = []"
proof -
  have n: "fp_call_plain \<noteq> NULL_TREE" "TREE_CODE fp_call_plain = CALL_EXPR"
    by (simp_all add: example_nodes fp_call_plain_def)
  have f: "get_fndecl_from_callee_expr (CALL_EXPR_FN fp_call_plain) = NULL_TREE"
    by (simp add: eval_simps example_nodes fp_call_plain_def)
  have o: "concat (map (\<lambda>op. warnings (traverse_and_check_ast 0 op
               \<lparr>function_return_type = void_type_node\<rparr>)) (operands fp_call_plain)) = []"
    by (simp add: eval_simps example_nodes fp_call_plain_def)
  show ?thesis
    using unresolved_call_skips_argument_check [OF n f, of 0
            "\<lparr>function_return_type = void_type_node\<rparr>"]
    by (simp add: o)
qed

section \<open>Returns\<close>

text \<open>
  Claim C9. At a return node the walker makes the check of the returned value and
  nothing more: \<open>RETURN_EXPR\<close> is in no case of the descent switch and its class is not
  \<open>tcc_expression\<close>, so no child is visited. The walk of a return node is the node's own
  visit followed by at most the one return-value diagnostic; a checkpoint inside the
  returned expression is never evaluated.
\<close>

theorem return_is_traversal_leaf:
  assumes "node \<noteq> NULL_TREE" and "TREE_CODE node = RETURN_EXPR"
  shows "traverse_and_check_ast input_location node data =
     Traversing node
     # map Warning
        (if TREE_OPERAND node 0 \<noteq> NULL_TREE
         then check_narrowing_conversion (node_location input_location node)
                (function_return_type data) (TREE_OPERAND node 0) ''return value''
         else [])
   \<and> visited (traverse_and_check_ast input_location node data) = [node]
   \<and> descent node = []
   \<and> TREE_CODE node \<notin> set all_operands_codes
   \<and> TREE_CODE_CLASS (TREE_CODE node) \<noteq> tcc_expression"
proof -
  have c: "TREE_CODE node \<notin> set all_operands_codes"
    "TREE_CODE_CLASS (TREE_CODE node) \<noteq> tcc_expression"
    using assms(2) by (simp_all add: all_operands_codes_def TREE_CODE_CLASS_def)
  have d: "descent node = []"
    using assms(2) c by (simp add: descent_def)
  have k: "checkpoint input_location node data =
     (if TREE_OPERAND node 0 \<noteq> NULL_TREE
         then check_narrowing_conversion (node_location input_location node)
                (function_return_type data) (TREE_OPERAND node 0) ''return value''
         else [])"
    using assms(2) by (simp add: checkpoint_def node_location_def Let_def)
  from c d k assms(1) show ?thesis
    by (simp add: traverse_node)
qed

text \<open>
  The witness: walking \<^verbatim>\<open>return g (i64);\<close> visits the return node only and reports
  nothing, although the call \<^verbatim>\<open>g (i64)\<close>, walked by itself, is reported.
\<close>

theorem return_is_traversal_leaf_witness:
  "visited (traverse_and_check_ast 0 return_call \<lparr>function_return_type = int32_t_type\<rparr>)
     = [return_call]
   \<and> warnings (traverse_and_check_ast 0 return_call \<lparr>function_return_type = int32_t_type\<rparr>)
     = []
   \<and> warnings (traverse_and_check_ast 0 direct_call \<lparr>function_return_type = int32_t_type\<rparr>)
     = [\<lparr>diag_loc = 9, diag_from = ''int64_t'', diag_to = ''int32_t'',
          diag_context = ''function argument''\<rparr>]"
proof -
  have n: "return_call \<noteq> NULL_TREE" "TREE_CODE return_call = RETURN_EXPR"
    by (simp_all add: return_call_def)
  have c: "check_narrowing_conversion (node_location 0 return_call) int32_t_type
             (TREE_OPERAND return_call 0) ''return value'' = []"
    by (simp add: eval_simps node_location_def example_nodes return_call_def direct_call_def type_nodes)
  have w: "warnings (traverse_and_check_ast 0 direct_call
             \<lparr>function_return_type = int32_t_type\<rparr>)
     = [\<lparr>diag_loc = 9, diag_from = ''int64_t'', diag_to = ''int32_t'',
          diag_context = ''function argument''\<rparr>]"
    by (simp add: eval_simps example_nodes direct_call_def type_nodes)
  show ?thesis
    using return_is_traversal_leaf [OF n, of 0 "\<lparr>function_return_type = int32_t_type\<rparr>"]
    by (simp add: c w)
qed

section \<open>The four checkpoints\<close>

lemma widening_not_narrowing:
  "width_of from_type \<le> width_of to_type \<Longrightarrow> \<not> narrowing_pattern from_type to_type"
  by (auto simp: narrowing_pattern_def)

lemma check_at:
  assumes "to_type \<noteq> NULL_TREE" and "to_type \<noteq> error_mark_node"
    and "get_original_type src = from_type"
    and "from_type \<noteq> NULL_TREE" and "from_type \<noteq> error_mark_node"
  shows "check_narrowing_conversion loc to_type src context =
     (if narrowing_pattern from_type to_type then [lossy loc from_type to_type context] else [])"
  using assms
  by (auto simp: check_narrowing_conversion_def narrowing_pattern_def kind_of_def width_of_def
      is_numeric_type_def lossy_def Let_def)

lemma var_ref_leaf:
  "var_ref name type \<noteq> NULL_TREE"
  "TREE_TYPE (var_ref name type) = type"
  "get_original_type (var_ref name type) = type"
  "warnings (traverse_and_check_ast il (var_ref name type) data) = []"
  by (simp_all add: var_ref_def get_original_type_def peel_conversions_other
      is_conversion_code_def warnings_traverse_node checkpoint_def descent_def
      all_operands_codes_def non_null_def)

lemma example_types_proper:
  "int32_t_type \<noteq> NULL_TREE" "int32_t_type \<noteq> error_mark_node" "int32_t_type \<noteq> void_type_node"
  "int64_t_type \<noteq> NULL_TREE" "int64_t_type \<noteq> error_mark_node" "int64_t_type \<noteq> void_type_node"
  "float_type_node \<noteq> NULL_TREE" "float_type_node \<noteq> error_mark_node"
  "float_type_node \<noteq> void_type_node"
  "double_type_node \<noteq> NULL_TREE" "double_type_node \<noteq> error_mark_node"
  "double_type_node \<noteq> void_type_node"
  by (simp_all add: type_nodes)

text \<open>
  Claim C3. For each of the four checkpoints --- a variable declaration with an
  initializer, an assignment, an argument of a call to a resolved function, a return with
  a value --- the walk of the minimal tree with that one checkpoint, whose source has a
  64-bit origin type and whose destination type is 32 bits wide in one of the three
  patterns, emits exactly one diagnostic, with the context label of the checkpoint; when
  the conversion is widening or of equal width it emits none. The source \<open>src\<close> (and the
  target \<open>lhs\<close> of the assignment) is any expression that contains no checkpoint reporting
  by itself, such as a reference to a variable.
\<close>

theorem checkpoint_coverage:
  assumes t: "to_type \<noteq> NULL_TREE" "to_type \<noteq> error_mark_node" "to_type \<noteq> void_type_node"
    and f: "from_type \<noteq> NULL_TREE" "from_type \<noteq> error_mark_node"
    and s: "src \<noteq> NULL_TREE" "get_original_type src = from_type"
           "warnings (traverse_and_check_ast il src data) = []"
    and l: "lhs \<noteq> NULL_TREE" "TREE_TYPE lhs = to_type"
           "warnings (traverse_and_check_ast il lhs data) = []"
    and r: "function_return_type data = to_type"
    and loc: "loc \<noteq> UNKNOWN_LOCATION"
  shows "(narrowing_pattern from_type to_type \<longrightarrow>
       warnings (traverse_and_check_ast il (Tree_decl VAR_DECL loc name to_type src) data)
         = [lossy loc from_type to_type ''variable initialization'']
     \<and> warnings (traverse_and_check_ast il (Tree_exp MODIFY_EXPR loc mtype [lhs, src]) data)
         = [lossy loc from_type to_type ''assignment'']
     \<and> warnings (traverse_and_check_ast il
           (call_expr loc ctype (addr_expr (function_decl fn [to_type, void_type_node])) [src])
           data)
         = [lossy loc from_type to_type ''function argument'']
     \<and> warnings (traverse_and_check_ast il (Tree_exp RETURN_EXPR loc rtype [src]) data)
         = [lossy loc from_type to_type ''return value''])
   \<and> (width_of from_type \<le> width_of to_type \<longrightarrow>
       warnings (traverse_and_check_ast il (Tree_decl VAR_DECL loc name to_type src) data) = []
     \<and> warnings (traverse_and_check_ast il (Tree_exp MODIFY_EXPR loc mtype [lhs, src]) data) = []
     \<and> warnings (traverse_and_check_ast il
           (call_expr loc ctype (addr_expr (function_decl fn [to_type, void_type_node])) [src])
           data) = []
     \<and> warnings (traverse_and_check_ast il (Tree_exp RETURN_EXPR loc rtype [src]) data) = [])"
proof -
  note c = check_at [OF t(1,2) s(2) f]
  have v: "warnings (traverse_and_check_ast il (Tree_decl VAR_DECL loc name to_type src) data)
       = one_or_none (narrowing_pattern from_type to_type)
           (lossy loc from_type to_type ''variable initialization'')"
    using s(1,3) by (simp add: warnings_traverse_node checkpoint_def descent_def
        all_operands_codes_def non_null_def c one_or_none_def)
  have m: "warnings (traverse_and_check_ast il (Tree_exp MODIFY_EXPR loc mtype [lhs, src]) data)
       = one_or_none (narrowing_pattern from_type to_type)
           (lossy loc from_type to_type ''assignment'')"
    using s(1,3) l loc by (simp add: warnings_traverse_node checkpoint_def descent_all_operands
        all_operands_codes_def TREE_OPERAND_def c one_or_none_def)
  let ?fn = "function_decl fn [to_type, void_type_node]"
  let ?call = "call_expr loc ctype (addr_expr ?fn) [src]"
  have g: "get_fndecl_from_callee_expr (CALL_EXPR_FN ?call) = ?fn"
    by (simp add: get_fndecl_from_callee_expr.simps CALL_EXPR_FN_def call_expr_def
        addr_expr_def function_decl_def TREE_OPERAND_def)
  have fn: "?fn \<noteq> NULL_TREE" "TYPE_ARG_TYPES (TREE_TYPE ?fn) = [to_type, void_type_node]"
    by (simp_all add: function_decl_def)
  have ck: "checkpoint il ?call data =
      check_narrowing_conversion loc to_type src ''function argument''"
  proof -
    have k: "TREE_CODE ?call = CALL_EXPR" "EXPR_LOCATION ?call = loc"
      "call_expr_args ?call = [src]"
      by (simp_all add: call_expr_def call_expr_args_def)
    show ?thesis
      using loc t(1,3) s(1) by (simp add: checkpoint_def g fn k)
  qed
  have fw: "warnings (traverse_and_check_ast il (addr_expr ?fn) data) = []"
    by (simp add: warnings_traverse_node addr_expr_def function_decl_def checkpoint_def
        descent_def all_operands_codes_def non_null_operands_filter TREE_CODE_CLASS_def)
  have cw: "warnings (traverse_and_check_ast il
        (Tree_cst INTEGER_CST integer_type_node k) data) = []" for k
    by (simp add: warnings_traverse_node checkpoint_def
        descent_def all_operands_codes_def TREE_CODE_CLASS_def)
  have ds: "descent ?call = [Tree_cst INTEGER_CST integer_type_node 4, addr_expr ?fn, src]"
    using s(1) by (simp add: descent_all_operands call_expr_def addr_expr_def)
  have "warnings (traverse_and_check_ast il ?call data) =
      checkpoint il ?call data
      @ concat (map (\<lambda>child. warnings (traverse_and_check_ast il child data)) (descent ?call))"
    by (rule warnings_traverse_node) (simp add: call_expr_def)
  then have a: "warnings (traverse_and_check_ast il ?call data)
       = one_or_none (narrowing_pattern from_type to_type)
           (lossy loc from_type to_type ''function argument'')"
    by (simp add: ck ds fw cw s(3) c one_or_none_def)
  have e: "warnings (traverse_and_check_ast il (Tree_exp RETURN_EXPR loc rtype [src]) data)
       = one_or_none (narrowing_pattern from_type to_type)
           (lossy loc from_type to_type ''return value'')"
    using s(1) r loc by (simp add: warnings_traverse_node checkpoint_def descent_def
        all_operands_codes_def TREE_CODE_CLASS_def TREE_OPERAND_def c one_or_none_def)
  from v m a e show ?thesis by (auto simp: one_or_none_def widening_not_narrowing)
qed


theorem checkpoint_coverage_witness:
  "warnings (traverse_and_check_ast 0
      (Tree_decl VAR_DECL 7 (Tree_identifier ''f32'') float_type_node (var_ref ''i64'' int64_t_type))
      \<lparr>function_return_type = float_type_node\<rparr>)
     = [\<lparr>diag_loc = 7, diag_from = ''int64_t'', diag_to = ''float'',
          diag_context = ''variable initialization''\<rparr>]
  \<and> warnings (traverse_and_check_ast 0
      (Tree_exp MODIFY_EXPR 7 float_type_node
         [var_ref ''f32'' float_type_node, var_ref ''i64'' int64_t_type])
      \<lparr>function_return_type = float_type_node\<rparr>)
     = [\<lparr>diag_loc = 7, diag_from = ''int64_t'', diag_to = ''float'',
          diag_context = ''assignment''\<rparr>]
  \<and> warnings (traverse_and_check_ast 0
      (call_expr 7 void_type_node
         (addr_expr (function_decl ''takes_32bit_float'' [float_type_node, void_type_node]))
         [var_ref ''i64'' int64_t_type])
      \<lparr>function_return_type = float_type_node\<rparr>)
     = [\<lparr>diag_loc = 7, diag_from = ''int64_t'', diag_to = ''float'',
          diag_context = ''function argument''\<rparr>]
  \<and> warnings (traverse_and_check_ast 0
      (Tree_exp RETURN_EXPR 7 void_type_node [var_ref ''i64'' int64_t_type])
      \<lparr>function_return_type = float_type_node\<rparr>)
     = [\<lparr>diag_loc = 7, diag_from = ''int64_t'', diag_to = ''float'',
          diag_context = ''return value''\<rparr>]
  \<and> warnings (traverse_and_check_ast 0
      (Tree_decl VAR_DECL 7 (Tree_identifier ''y'') int64_t_type (var_ref ''x'' int32_t_type))
      \<lparr>function_return_type = int64_t_type\<rparr>) = []
  \<and> warnings (traverse_and_check_ast 0
      (Tree_exp MODIFY_EXPR 7 int64_t_type
         [var_ref ''y'' int64_t_type, var_ref ''x'' int32_t_type])
      \<lparr>function_return_type = int64_t_type\<rparr>) = []
  \<and> warnings (traverse_and_check_ast 0
      (call_expr 7 void_type_node
         (addr_expr (function_decl ''takes_64bit'' [int64_t_type, void_type_node]))
         [var_ref ''x'' int32_t_type])
      \<lparr>function_return_type = int64_t_type\<rparr>) = []
  \<and> warnings (traverse_and_check_ast 0
      (Tree_exp RETURN_EXPR 7 void_type_node [var_ref ''x'' int32_t_type])
      \<lparr>function_return_type = int64_t_type\<rparr>) = []"
proof -
  have p: "narrowing_pattern int64_t_type float_type_node"
    "width_of int32_t_type \<le> width_of int64_t_type"
    by (simp_all add: narrowing_pattern_def kind_of_def width_of_def type_nodes)
  have g: "lossy 7 int64_t_type float_type_node c
     = \<lparr>diag_loc = 7, diag_from = ''int64_t'', diag_to = ''float'', diag_context = c\<rparr>" for c
    by (simp add: lossy_def get_type_name_def type_nodes)
  have u: "(7::nat) \<noteq> UNKNOWN_LOCATION" by (simp add: UNKNOWN_LOCATION_def)
  show ?thesis
    using
      checkpoint_coverage [where to_type = float_type_node and from_type = int64_t_type
          and src = "var_ref ''i64'' int64_t_type" and lhs = "var_ref ''f32'' float_type_node"
          and data = "\<lparr>function_return_type = float_type_node\<rparr>" and il = 0 and loc = 7
          and name = "Tree_identifier ''f32''" and mtype = float_type_node
          and ctype = void_type_node and rtype = void_type_node
          and fn = "''takes_32bit_float''"]
      checkpoint_coverage [where to_type = int64_t_type and from_type = int32_t_type
          and src = "var_ref ''x'' int32_t_type" and lhs = "var_ref ''y'' int64_t_type"
          and data = "\<lparr>function_return_type = int64_t_type\<rparr>" and il = 0 and loc = 7
          and name = "Tree_identifier ''y''" and mtype = int64_t_type
          and ctype = void_type_node and rtype = void_type_node
          and fn = "''takes_64bit''"]
    by (simp add: p g u example_types_proper var_ref_leaf)
qed

section \<open>Value independence\<close>

lemma erase_literals_NULL_iff [simp]: "erase_literals x = NULL_TREE \<longleftrightarrow> x = NULL_TREE"
  by (cases x) simp_all

lemma TREE_CODE_erase [simp]: "TREE_CODE (erase_literals x) = TREE_CODE x"
  by (cases x) simp_all

lemma TREE_TYPE_erase [simp]: "TREE_TYPE (erase_literals x) = TREE_TYPE x"
  by (cases x) simp_all

lemma locations_erase [simp]:
  "EXPR_LOCATION (erase_literals x) = EXPR_LOCATION x"
  "DECL_SOURCE_LOCATION (erase_literals x) = DECL_SOURCE_LOCATION x"
  by (cases x; simp)+

lemma operands_erase [simp]: "operands (erase_literals x) = map erase_literals (operands x)"
  by (cases x) simp_all

lemma TREE_OPERAND_erase [simp]:
  "TREE_OPERAND (erase_literals x) i = erase_literals (TREE_OPERAND x i)"
  by (simp add: TREE_OPERAND_def)

lemma DECL_INITIAL_erase [simp]:
  "DECL_INITIAL (erase_literals x) = erase_literals (DECL_INITIAL x)"
  by (cases x) simp_all

lemma tsi_stmts_erase [simp]: "tsi_stmts (erase_literals x) = map erase_literals (tsi_stmts x)"
  by (cases x) simp_all

lemma peel_conversions_erase:
  "peel_conversions (erase_literals x) = erase_literals (peel_conversions x)"
proof (induction x rule: peel_conversions.induct)
  case (1 current_expr)
  show ?case
  proof (cases "current_expr \<noteq> NULL_TREE \<and> is_conversion_code (TREE_CODE current_expr)")
    case True
    then have "peel_conversions (erase_literals current_expr)
        = peel_conversions (erase_literals (TREE_OPERAND current_expr 0))"
      by (simp add: peel_conversions_conv)
    also have "\<dots> = erase_literals (peel_conversions (TREE_OPERAND current_expr 0))"
      using True by (rule "1.IH")
    also have "\<dots> = erase_literals (peel_conversions current_expr)"
      using True by (simp add: peel_conversions_conv)
    finally show ?thesis .
  next
    case False
    then show ?thesis
      by (cases "current_expr = NULL_TREE") (simp_all add: peel_conversions_other)
  qed
qed

lemma get_original_type_erase [simp]:
  "get_original_type (erase_literals e) = get_original_type e"
  by (simp add: get_original_type_def peel_conversions_erase Let_def)

lemma check_narrowing_conversion_erase [simp]:
  "check_narrowing_conversion loc t (erase_literals e) context
     = check_narrowing_conversion loc t e context"
  by (simp add: check_narrowing_conversion_def)

lemma get_fndecl_erase:
  "get_fndecl_from_callee_expr (erase_literals callee)
     = erase_literals (get_fndecl_from_callee_expr callee)"
proof (induction callee rule: get_fndecl_from_callee_expr.induct)
  case (1 callee)
  show ?case
  proof (cases "callee \<noteq> NULL_TREE \<and> TREE_CODE callee \<noteq> FUNCTION_DECL \<and>
      (TREE_CODE callee = ADDR_EXPR \<or> TREE_CODE callee = NOP_EXPR \<or> TREE_CODE callee = CONVERT_EXPR)")
    case True
    then have "get_fndecl_from_callee_expr (erase_literals callee)
        = get_fndecl_from_callee_expr (erase_literals (TREE_OPERAND callee 0))"
      by (subst get_fndecl_from_callee_expr.simps) auto
    also have "\<dots> = erase_literals (get_fndecl_from_callee_expr (TREE_OPERAND callee 0))"
      using True by (intro "1.IH") auto
    also have "\<dots> = erase_literals (get_fndecl_from_callee_expr callee)"
      using True by (subst (2) get_fndecl_from_callee_expr.simps) auto
    finally show ?thesis .
  next
    case False
    then show ?thesis
      by (subst get_fndecl_from_callee_expr.simps, subst (2) get_fndecl_from_callee_expr.simps)
         auto
  qed
qed

lemma check_call_args_erase [simp]:
  "check_call_args loc arg_types (map erase_literals args) = check_call_args loc arg_types args"
  by (induction loc arg_types args rule: check_call_args.induct) simp_all

lemma checkpoint_erase [simp]:
  "checkpoint il (erase_literals node) data = checkpoint il node data"
  by (simp add: checkpoint_def CALL_EXPR_FN_def call_expr_args_def get_fndecl_erase drop_map
      Let_def)

lemma non_null_erase: "non_null (erase_literals x) = map erase_literals (non_null x)"
  by (simp add: non_null_def)

lemma non_null_operands_erase:
  "non_null_operands (erase_literals x) = map erase_literals (non_null_operands x)"
  by (simp add: non_null_operands_filter filter_map comp_def)

lemma descent_erase: "descent (erase_literals node) = map erase_literals (descent node)"
  by (simp add: descent_def non_null_erase non_null_operands_erase Let_def)

lemma warnings_traverse_erase:
  "warnings (traverse_and_check_ast il (erase_literals node) data)
     = warnings (traverse_and_check_ast il node data)"
proof (induction il node data rule: traverse_and_check_ast.induct)
  case (1 il node data)
  show ?case
  proof (cases "node = NULL_TREE")
    case True
    then show ?thesis by simp
  next
    case False
    then have "warnings (traverse_and_check_ast il (erase_literals node) data)
      = checkpoint il node data
        @ concat (map (\<lambda>child. warnings (traverse_and_check_ast il (erase_literals child) data))
                      (descent node))"
      by (simp add: warnings_traverse_node descent_erase comp_def)
    also have "map (\<lambda>child. warnings (traverse_and_check_ast il (erase_literals child) data))
                      (descent node)
       = map (\<lambda>child. warnings (traverse_and_check_ast il child data)) (descent node)"
      using "1.IH" [OF False] by simp
    finally show ?thesis using False by (simp add: warnings_traverse_node)
  qed
qed

text \<open>
  Claim C8. The diagnostics do not depend on literal values: two function bodies that are
  identical except for the values of their numeric literals (all types unchanged) make
  the walk emit the same diagnostics, in the same order.
\<close>

theorem diagnostics_value_independent:
  assumes "erase_literals body = erase_literals body'"
  shows "warnings (traverse_and_check_ast il body data)
       = warnings (traverse_and_check_ast il body' data)"
proof -
  have "warnings (traverse_and_check_ast il body data)
      = warnings (traverse_and_check_ast il (erase_literals body) data)"
    by (simp add: warnings_traverse_erase)
  also have "\<dots> = warnings (traverse_and_check_ast il (erase_literals body') data)"
    by (simp add: assms)
  also have "\<dots> = warnings (traverse_and_check_ast il body' data)"
    by (simp add: warnings_traverse_erase)
  finally show ?thesis .
qed

theorem diagnostics_value_independent_witness:
  "warnings (traverse_and_check_ast 0 (int_to_float_body 9007199254740992)
      \<lparr>function_return_type = void_type_node\<rparr>)
   = warnings (traverse_and_check_ast 0 (int_to_float_body 1)
      \<lparr>function_return_type = void_type_node\<rparr>)
 \<and> warnings (traverse_and_check_ast 0 (int_to_float_body 1)
      \<lparr>function_return_type = void_type_node\<rparr>)
   = [\<lparr>diag_loc = 79, diag_from = ''int64_t'', diag_to = ''float'',
        diag_context = ''variable initialization''\<rparr>]"
proof -
  have e: "erase_literals (int_to_float_body 9007199254740992)
      = erase_literals (int_to_float_body 1)"
    by (simp add: int_to_float_body_def)
  have w: "warnings (traverse_and_check_ast 0 (int_to_float_body 1)
      \<lparr>function_return_type = void_type_node\<rparr>)
   = [\<lparr>diag_loc = 79, diag_from = ''int64_t'', diag_to = ''float'',
        diag_context = ''variable initialization''\<rparr>]"
    by (simp add: eval_simps int_to_float_body_def type_nodes)
  show ?thesis
    using diagnostics_value_independent [OF e, of 0 "\<lparr>function_return_type = void_type_node\<rparr>"] by (simp add: w)
qed

section \<open>Totality of the walk\<close>

lemma all_nodes_children:
  "node \<noteq> NULL_TREE \<Longrightarrow> all_nodes node = node # concat (map all_nodes (children node))"
proof (cases node)
  case (Tree_exp c l t ops)
  have "concat (map all_nodes (filter (\<lambda>x. x \<noteq> NULL_TREE) ops)) = concat (map all_nodes ops)"
    by (induction ops) simp_all
  with Tree_exp show ?thesis by (simp add: children_def)
next
  case (Tree_statement_list ss)
  have "concat (map all_nodes (filter (\<lambda>x. x \<noteq> NULL_TREE) ss)) = concat (map all_nodes ss)"
    by (induction ss) simp_all
  with Tree_statement_list show ?thesis by (simp add: children_def)
qed (simp_all add: children_def)

lemma mset_concat_map:
  "mset (concat (map f xs)) = \<Sum>\<^sub># (image_mset (\<lambda>x. mset (f x)) (mset xs))"
  by (induction xs) simp_all

lemma sum_mset_subset_mono:
  fixes f :: "'a \<Rightarrow> 'b multiset"
  assumes "A \<subseteq># B"
  shows "\<Sum>\<^sub># (image_mset f A) \<subseteq># \<Sum>\<^sub># (image_mset f B)"
proof -
  from assms obtain C where "B = A + C" by (auto simp: mset_subset_eq_exists_conv)
  then show ?thesis by simp
qed

lemma sum_mset_pointwise_mono:
  fixes f g :: "'a \<Rightarrow> 'b multiset"
  assumes "\<And>x. x \<in># A \<Longrightarrow> f x \<subseteq># g x"
  shows "\<Sum>\<^sub># (image_mset f A) \<subseteq># \<Sum>\<^sub># (image_mset g A)"
  using assms
proof (induction A)
  case empty
  then show ?case by simp
next
  case (add x A)
  have "f x \<subseteq># g x" by (rule add.prems) simp
  moreover have "\<Sum>\<^sub># (image_mset f A) \<subseteq># \<Sum>\<^sub># (image_mset g A)"
    by (rule add.IH) (simp add: add.prems)
  ultimately show ?case by (simp add: mset_subset_eq_mono_add)
qed

lemma mset_visited_traverse:
  assumes "node \<noteq> NULL_TREE"
  shows "mset (visited (traverse_and_check_ast il node data)) =
     add_mset node (\<Sum>\<^sub># (image_mset (\<lambda>c. mset (visited (traverse_and_check_ast il c data)))
                      (mset (filter (\<lambda>x. x \<noteq> NULL_TREE) (descent node)))))"
proof -
  have "concat (map (\<lambda>c. visited (traverse_and_check_ast il c data)) (descent node))
      = concat (map (\<lambda>c. visited (traverse_and_check_ast il c data))
                    (filter (\<lambda>x. x \<noteq> NULL_TREE) (descent node)))"
    by (simp add: concat_map_filter_non_null [where f = visited])
  with visited_traverse_node [OF assms, of il data]
  have "visited (traverse_and_check_ast il node data) =
      node # concat (map (\<lambda>c. visited (traverse_and_check_ast il c data))
                    (filter (\<lambda>x. x \<noteq> NULL_TREE) (descent node)))"
    by simp
  then show ?thesis by (simp add: mset_concat_map)
qed

lemma mset_all_nodes:
  assumes "node \<noteq> NULL_TREE"
  shows "mset (all_nodes node) =
     add_mset node (\<Sum>\<^sub># (image_mset (\<lambda>c. mset (all_nodes c)) (mset (children node))))"
  using all_nodes_children [OF assms] by (simp add: mset_concat_map)


lemma mset_take_filter_sub:
  "mset (filter P (take k xs)) \<subseteq># mset (filter P xs)"
proof -
  have "mset (filter P xs) = mset (filter P (take k xs)) + mset (filter P (drop k xs))"
    by (metis append_take_drop_id filter_append mset_append)
  then show ?thesis by simp
qed

lemma map_TREE_OPERAND_upt:
  "filter (\<lambda>x. x \<noteq> NULL_TREE) (map (TREE_OPERAND node) [0 ..< k])
     = filter (\<lambda>x. x \<noteq> NULL_TREE) (take k (operands node))"
proof (induction k)
  case 0
  then show ?case by simp
next
  case (Suc k)
  show ?case
  proof (cases "k < length (operands node)")
    case True
    then show ?thesis using Suc by (simp add: take_Suc_conv_app_nth TREE_OPERAND_def)
  next
    case False
    then show ?thesis using Suc by (simp add: TREE_OPERAND_def)
  qed
qed

lemma operands_prefix_sub_children:
  "mset (filter (\<lambda>x. x \<noteq> NULL_TREE) (map (TREE_OPERAND node) [0 ..< k]))
     \<subseteq># mset (children node)"
proof -
  have "mset (filter (\<lambda>x. x \<noteq> NULL_TREE) (map (TREE_OPERAND node) [0 ..< k]))
      = mset (filter (\<lambda>x. x \<noteq> NULL_TREE) (take k (operands node)))"
    using map_TREE_OPERAND_upt [of node k] by (rule arg_cong)
  also have "\<dots> \<subseteq># mset (filter (\<lambda>x. x \<noteq> NULL_TREE) (operands node))"
    by (rule mset_take_filter_sub)
  also have "\<dots> \<subseteq># mset (children node)" by (simp add: children_def)
  finally show ?thesis .
qed

lemma operands_sub_children: "mset (non_null_operands node) \<subseteq># mset (children node)"
  by (simp add: non_null_operands_filter children_def)

lemma initial_sub_children:
  "mset (filter (\<lambda>x. x \<noteq> NULL_TREE) (non_null (DECL_INITIAL node))) \<subseteq># mset (children node)"
  by (simp add: children_def non_null_def)

lemma stmts_sub_children:
  "mset (filter (\<lambda>x. x \<noteq> NULL_TREE) (tsi_stmts node)) \<subseteq># mset (children node)"
  by (simp add: children_def)

lemma operand_lists_sub_children:
  "mset (filter (\<lambda>x. x \<noteq> NULL_TREE) [TREE_OPERAND node 0]) \<subseteq># mset (children node)"
  "mset (filter (\<lambda>x. x \<noteq> NULL_TREE) [TREE_OPERAND node 0, TREE_OPERAND node 1])
     \<subseteq># mset (children node)"
  "mset (filter (\<lambda>x. x \<noteq> NULL_TREE)
      [TREE_OPERAND node 0, TREE_OPERAND node 1, TREE_OPERAND node 2])
     \<subseteq># mset (children node)"
  "mset (filter (\<lambda>x. x \<noteq> NULL_TREE)
      [TREE_OPERAND node 0, TREE_OPERAND node 1, TREE_OPERAND node 2, TREE_OPERAND node 3])
     \<subseteq># mset (children node)"
proof -
  have e: "map (TREE_OPERAND node) [0 ..< 1] = [TREE_OPERAND node 0]"
    "map (TREE_OPERAND node) [0 ..< 2] = [TREE_OPERAND node 0, TREE_OPERAND node 1]"
    "map (TREE_OPERAND node) [0 ..< 3]
       = [TREE_OPERAND node 0, TREE_OPERAND node 1, TREE_OPERAND node 2]"
    "map (TREE_OPERAND node) [0 ..< 4]
       = [TREE_OPERAND node 0, TREE_OPERAND node 1, TREE_OPERAND node 2, TREE_OPERAND node 3]"
    by (simp_all add: upt_rec numeral_2_eq_2 numeral_3_eq_3)
  note p = operands_prefix_sub_children [of node]
  show "mset (filter (\<lambda>x. x \<noteq> NULL_TREE) [TREE_OPERAND node 0]) \<subseteq># mset (children node)"
    using p [of 1] unfolding e .
  show "mset (filter (\<lambda>x. x \<noteq> NULL_TREE) [TREE_OPERAND node 0, TREE_OPERAND node 1])
     \<subseteq># mset (children node)"
    using p [of 2] unfolding e .
  show "mset (filter (\<lambda>x. x \<noteq> NULL_TREE)
      [TREE_OPERAND node 0, TREE_OPERAND node 1, TREE_OPERAND node 2])
     \<subseteq># mset (children node)"
    using p [of 3] unfolding e .
  show "mset (filter (\<lambda>x. x \<noteq> NULL_TREE)
      [TREE_OPERAND node 0, TREE_OPERAND node 1, TREE_OPERAND node 2, TREE_OPERAND node 3])
     \<subseteq># mset (children node)"
    using p [of 4] unfolding e .
qed

lemma special_not_all_operands:
  "code \<in> set special_codes \<Longrightarrow> code \<notin> set all_operands_codes"
  by (auto simp: special_codes_def all_operands_codes_def)

lemma descent_special:
  "TREE_CODE node = BIND_EXPR \<Longrightarrow>
     descent node = non_null (TREE_OPERAND node 0) @ non_null (TREE_OPERAND node 1)"
  "TREE_CODE node = STATEMENT_LIST \<Longrightarrow> descent node = tsi_stmts node"
  "TREE_CODE node = EXPR_STMT \<Longrightarrow> descent node = [TREE_OPERAND node 0]"
  "TREE_CODE node = IF_STMT \<Longrightarrow>
     descent node = [TREE_OPERAND node 0, TREE_OPERAND node 1] @ non_null (TREE_OPERAND node 2)"
  "TREE_CODE node = FOR_STMT \<Longrightarrow>
     descent node = [TREE_OPERAND node 0, TREE_OPERAND node 1, TREE_OPERAND node 2,
                     TREE_OPERAND node 3]"
  "TREE_CODE node = WHILE_STMT \<Longrightarrow> descent node = [TREE_OPERAND node 0, TREE_OPERAND node 1]"
  "TREE_CODE node = DO_STMT \<Longrightarrow> descent node = [TREE_OPERAND node 1, TREE_OPERAND node 0]"
  "TREE_CODE node = SWITCH_STMT \<Longrightarrow> descent node = [TREE_OPERAND node 0, TREE_OPERAND node 1]"
  "TREE_CODE node = CASE_LABEL_EXPR \<Longrightarrow>
     descent node = [TREE_OPERAND node 0] @ non_null (TREE_OPERAND node 1)"
  "TREE_CODE node = DECL_EXPR \<Longrightarrow> descent node = [TREE_OPERAND node 0]"
  "TREE_CODE node = VAR_DECL \<or> TREE_CODE node = PARM_DECL \<or> TREE_CODE node = FIELD_DECL \<Longrightarrow>
     descent node = non_null (DECL_INITIAL node)"
  by (auto simp: descent_def all_operands_codes_def)

lemma descent_unrecognized:
  "unrecognized (TREE_CODE node) \<Longrightarrow>
     descent node =
       (if TREE_CODE_CLASS (TREE_CODE node) = tcc_expression then non_null_operands node else [])"
  by (simp add: unrecognized_def special_codes_def descent_def)

lemma descent_sub_children:
  "mset (filter (\<lambda>x. x \<noteq> NULL_TREE) (descent node)) \<subseteq># mset (children node)"
proof -
  let ?P = "\<lambda>x. x \<noteq> NULL_TREE"
  note o = operand_lists_sub_children [of node]
  have q: "mset (filter ?P (non_null_operands node)) \<subseteq># mset (children node)"
    by (simp add: non_null_operands_filter children_def)
  consider (all) "TREE_CODE node \<in> set all_operands_codes"
    | (bind) "TREE_CODE node = BIND_EXPR" | (list) "TREE_CODE node = STATEMENT_LIST"
    | (one) "TREE_CODE node = EXPR_STMT \<or> TREE_CODE node = DECL_EXPR"
    | (ifs) "TREE_CODE node = IF_STMT" | (fors) "TREE_CODE node = FOR_STMT"
    | (two) "TREE_CODE node = WHILE_STMT \<or> TREE_CODE node = SWITCH_STMT"
    | (dos) "TREE_CODE node = DO_STMT" | (label) "TREE_CODE node = CASE_LABEL_EXPR"
    | (decl) "TREE_CODE node = VAR_DECL \<or> TREE_CODE node = PARM_DECL
              \<or> TREE_CODE node = FIELD_DECL"
    | (other) "unrecognized (TREE_CODE node)"
    by (auto simp: unrecognized_def special_codes_def)
  then show ?thesis
  proof cases
    case all
    then show ?thesis using q by (simp only: descent_def Let_def if_True)
  next
    case bind
    have "filter ?P (descent node) = filter ?P [TREE_OPERAND node 0, TREE_OPERAND node 1]"
      by (simp add: descent_special(1) [OF bind] non_null_def)
    then show ?thesis using o(2) by (simp only:)
  next
    case list
    then show ?thesis by (simp add: descent_special children_def)
  next
    case one
    then have "descent node = [TREE_OPERAND node 0]" by (auto simp: descent_special)
    then show ?thesis using o(1) by (simp only:)
  next
    case ifs
    have "filter ?P (descent node)
        = filter ?P [TREE_OPERAND node 0, TREE_OPERAND node 1, TREE_OPERAND node 2]"
      by (simp add: descent_special(4) [OF ifs] non_null_def)
    then show ?thesis using o(3) by (simp only:)
  next
    case fors
    then show ?thesis using o(4) by (simp only: descent_special)
  next
    case two
    then have "descent node = [TREE_OPERAND node 0, TREE_OPERAND node 1]"
      by (auto simp: descent_special)
    then show ?thesis using o(2) by (simp only:)
  next
    case dos
    have "mset (filter ?P (descent node))
        = mset (filter ?P [TREE_OPERAND node 0, TREE_OPERAND node 1])"
      by (simp add: descent_special(7) [OF dos])
    then show ?thesis using o(2) by (simp only:)
  next
    case label
    have "filter ?P (descent node) = filter ?P [TREE_OPERAND node 0, TREE_OPERAND node 1]"
      by (simp add: descent_special(9) [OF label] non_null_def)
    then show ?thesis using o(2) by (simp only:)
  next
    case decl
    then show ?thesis by (simp add: descent_special(11) children_def non_null_def)
  next
    case other
    then show ?thesis using q by (simp add: descent_unrecognized)
  qed
qed


lemma visited_sub_all_nodes:
  "mset (visited (traverse_and_check_ast il node data)) \<subseteq># mset (all_nodes node)"
proof (induction il node data rule: traverse_and_check_ast.induct)
  case (1 il node data)
  show ?case
  proof (cases "node = NULL_TREE")
    case True
    then show ?thesis by simp
  next
    case False
    let ?d = "mset (filter (\<lambda>x. x \<noteq> NULL_TREE) (descent node))"
    let ?v = "\<lambda>c. mset (visited (traverse_and_check_ast il c data))"
    let ?a = "\<lambda>c. mset (all_nodes c)"
    have "\<Sum>\<^sub># (image_mset ?v ?d) \<subseteq># \<Sum>\<^sub># (image_mset ?a ?d)"
    proof (rule sum_mset_pointwise_mono)
      fix c assume "c \<in># ?d"
      then have "c \<in> set (descent node)" by simp
      with False show "?v c \<subseteq># ?a c" by (rule "1.IH")
    qed
    also have "\<dots> \<subseteq># \<Sum>\<^sub># (image_mset ?a (mset (children node)))"
      using descent_sub_children by (rule sum_mset_subset_mono)
    finally show ?thesis
      by (simp only: mset_visited_traverse [OF False] mset_all_nodes [OF False]
          mset_subset_eq_add_mset_cancel)
  qed
qed

lemma unrecognized_leaf:
  assumes "node \<noteq> NULL_TREE" and "unrecognized (TREE_CODE node)"
    and "TREE_CODE_CLASS (TREE_CODE node) \<noteq> tcc_expression"
  shows "visited (traverse_and_check_ast il node data) = [node]"
  using assms by (simp add: visited_traverse_node descent_unrecognized)

text \<open>
  Claim C1. The walk of a function body is to terminate and to visit every node
  reachable from the body exactly once, whatever recognized and unrecognized kinds the
  body nests. The walk terminates (\<open>traverse_and_check_ast\<close> is a total function) and
  visits no node more often than the node occurs in the body (\<open>visited_sub_all_nodes\<close>),
  but it misses nodes. The source announces its \<^verbatim>\<open>default\<close> branch as "traverse its
  operands if it is an expression" and tests \<^verbatim>\<open>TREE_CODE_CLASS (code) == tcc_expression\<close>,
  one of GCC's expression classes only: a kind the descent switch does not list is
  descended only if it has that class. \<open>RETURN_EXPR\<close> (class \<open>tcc_statement\<close>) is the one
  checkpoint kind the switch does not list, and \<open>NEGATE_EXPR\<close> (class \<open>tcc_unary\<close>) is left
  out beside its listed siblings \<open>ABS_EXPR\<close> and \<open>BIT_NOT_EXPR\<close>. The theorem evaluates the
  walk at \<^verbatim>\<open>return g (i64);\<close> and at \<^verbatim>\<open>y = -g (i64);\<close>: in both the call is a node of the
  body, the walk does not visit it, and the narrowing argument, which the walk of the
  call by itself reports, goes unreported.
\<close>

theorem walk_misses_nodes_below_return_and_negate:
  "direct_call \<in> set (all_nodes return_call_body)
   \<and> visited (traverse_and_check_ast 0 return_call_body
               \<lparr>function_return_type = int32_t_type\<rparr>)
       = [return_call_body, return_call]
   \<and> length (all_nodes return_call_body) = 9
   \<and> warnings (traverse_and_check_ast 0 return_call_body
                \<lparr>function_return_type = int32_t_type\<rparr>) = []
   \<and> direct_call \<in> set (all_nodes negate_call_body)
   \<and> direct_call \<notin> set (visited (traverse_and_check_ast 0 negate_call_body
                                  \<lparr>function_return_type = int32_t_type\<rparr>))
   \<and> last (visited (traverse_and_check_ast 0 negate_call_body
                      \<lparr>function_return_type = int32_t_type\<rparr>)) = negate_call
   \<and> warnings (traverse_and_check_ast 0 negate_call_body
                \<lparr>function_return_type = int32_t_type\<rparr>) = []
   \<and> warnings (traverse_and_check_ast 0 direct_call
                \<lparr>function_return_type = int32_t_type\<rparr>)
       = [\<lparr>diag_loc = 9, diag_from = ''int64_t'', diag_to = ''int32_t'',
            diag_context = ''function argument''\<rparr>]"
  by (simp add: eval_simps example_nodes return_call_body_def return_call_def
      negate_call_body_def negate_call_def direct_call_def type_nodes)

end
